theory Spec2Isabelle
  imports Complex_Main "HOL-Library.Word"
begin

unbundle bit_operations_syntax

section \<open>Azure Log Analytics scaler: data model\<close>

text \<open>
  Shallow embedding of \<^verbatim>\<open>pkg/scalers/azure_log_analytics_scaler.go\<close>.
  Go's \<^verbatim>\<open>int64\<close> is a 64-bit word read as two's complement (\<open>sint\<close>, \<open><s\<close>);
  Go's \<^verbatim>\<open>int\<close> is taken at its 64-bit width; HTTP status codes, which are never
  computed with, are \<open>int\<close>. Go strings and byte slices are \<open>string\<close> (a list of
  bytes); a nil slice and an empty one are both \<open>[]\<close>, as \<^verbatim>\<open>len\<close> does not tell
  them apart.
\<close>

type_synonym int64 = "64 word"

record tokenData =
  TokenType :: string
  ExpiresIn :: int64
  ExtExpiresIn :: int64
  ExpiresOn :: int64
  NotBefore :: int64
  Resource :: string
  AccessToken :: string

definition tokenData_zero :: tokenData where
  "tokenData_zero = \<lparr>TokenType = [], ExpiresIn = 0, ExtExpiresIn = 0, ExpiresOn = 0,
     NotBefore = 0, Resource = [], AccessToken = []\<rparr>"

record azureLogAnalyticsMetadata =
  tenantID :: string
  clientID :: string
  clientSecret :: string
  workspaceID :: string
  podIdentity :: string
  query :: string
  threshold :: int64

record sessionCache =
  metricValue :: int64
  metricThreshold :: int64

record azureLogAnalyticsScaler =
  metadata :: azureLogAnalyticsMetadata
  cache :: sessionCache
  name :: string
  namespace :: string

text \<open>
  The fields \<^verbatim>\<open>value\<close> and \<^verbatim>\<open>threshold\<close> of \<^verbatim>\<open>metricsData\<close> are \<open>mvalue\<close> and
  \<open>mthreshold\<close> here, \<open>threshold\<close> being a field of the metadata already.
\<close>

record metricsData =
  mvalue :: int64
  mthreshold :: int64

text \<open>
  A cell of \<^verbatim>\<open>Rows [][]interface{}\<close> after \<^verbatim>\<open>encoding/json\<close> decoding: JSON null is
  \<^verbatim>\<open>nil\<close>, every JSON number is a \<^verbatim>\<open>float64\<close>, and strings, booleans, arrays and
  objects are values of other dynamic types. The decoder rejects numbers outside the
  range of \<^verbatim>\<open>float64\<close>, so a decoded number is finite; it is modelled by the real
  number it denotes (comparison with 0 and truncation agree on finite floats, and
  \<^verbatim>\<open>-0.0\<close> is 0).
\<close>

datatype cell = Nil | Float64 real | String string | Bool bool | Composite

record column =
  cName :: string
  cType :: string

record table =
  tName :: string
  Columns :: "column list"
  Rows :: "cell list list"

record queryResult =
  Tables :: "table list"

text \<open>
  Every error value the file builds with \<^verbatim>\<open>fmt.Errorf\<close> is a constructor named after
  its message, carrying the arguments of the format string in their order; \<open>External\<close>
  stands for the errors made by the libraries (\<^verbatim>\<open>net/http\<close>, \<^verbatim>\<open>encoding/json\<close>,
  \<^verbatim>\<open>io\<close>).
\<close>

datatype error =
    External string
  | ErrHash error
      \<comment> \<open>Error calculating sha1 hash. Inner Error: %v\<close>
  | ErrTokenCache
      \<comment> \<open>Error getting value from token cache. Details: unknown error\<close>
  | ErrCalling string error
      \<comment> \<open>Error calling %s. Inner Error: %v\<close>
  | ErrReadingBody string error
      \<comment> \<open>Error reading %s response body: Inner Error: %v\<close>
  | ErrMarshal error
      \<comment> \<open>Can't construct JSON for request to Log Analytics API. Inner Error: %v\<close>
  | ErrRequestLA error
      \<comment> \<open>Can't construct HTTP request to Log Analytics API. Inner Error: %v\<close>
  | ErrRequestAAD error
      \<comment> \<open>Can't construct HTTP request to Azure Active Directory. Inner Error: %v\<close>
  | ErrRequestIMDS error
      \<comment> \<open>Can't construct HTTP request to Azure Instance Metadata service. Inner Error: %v\<close>
  | ErrToken int error string
      \<comment> \<open>Error getting access token. HTTP code: %d. Inner Error: %v. Body: %s\<close>
  | ErrTokenEmptyBody int
      \<comment> \<open>Error getting access token. Details: empty body. HTTP code: %d\<close>
  | ErrTokenDecode int error string
      \<comment> \<open>Error getting access token. Details: can't decode response body to JSON after
          getting access token. HTTP code: %d. Inner Error: %v. Body: %s\<close>
  | ErrTokenUnknown int string
      \<comment> \<open>Error getting access token. Details: unknown error. HTTP code: %d. Body: %s\<close>
  | ErrTokenStartDate int64
      \<comment> \<open>Error getting access token. Details: AAD token has been received, but start date
          begins in %d seconds, so current operation will be skipped\<close>
  | ErrQueryHTTP int "error option" string
      \<comment> \<open>Error processing Log Analytics request. HTTP code %d. Inner Error: %v. Body: %s\<close>
  | ErrQueryEmptyBody int
      \<comment> \<open>Error processing Log Analytics request. Details: empty body. HTTP code: %d\<close>
  | ErrQueryDecode int error string
      \<comment> \<open>Error processing Log Analytics request. Details: can't decode response body to
          JSON from REST API result. HTTP code: %d. Inner Error: %v. Body: %s\<close>
  | ErrQueryUnknown int string
      \<comment> \<open>Error processing Log Analytics request. Details: unknown error. HTTP code: %d.
          Body: %s\<close>
  | ErrNoResults int string
      \<comment> \<open>Error validating Log Analytics request. Details: there is no results after running
          your query. HTTP code: %d. Body: %s\<close>
  | ErrTooManyTables nat int string
      \<comment> \<open>... Details: too many tables in query result: %d, expected: 1. HTTP code: %d.
          Body: %s\<close>
  | ErrTooManyRows nat int string
      \<comment> \<open>... Details: too many rows in query result: %d, expected: 1. HTTP code: %d.
          Body: %s\<close>
  | ErrValueNotFloat int string
      \<comment> \<open>... Details: can not convert result to type float64. HTTP code: %d. Body: %s\<close>
  | ErrValueNegative real int string
      \<comment> \<open>... Details: metric value should be >=0, but received %f. HTTP code: %d. Body: %s\<close>
  | ErrValueType string int string
      \<comment> \<open>... Details: metric value data type should be real, int or long, but received %s.
          HTTP code: %d Body: %s\<close>
  | ErrThresholdNotFloat int string
      \<comment> \<open>... Details: cannot convert threshold result to type float64. HTTP code: %d.
          Body: %s\<close>
  | ErrThresholdNegative real int string
      \<comment> \<open>... Details: threshold value should be >=0, but received %f. HTTP code: %d.
          Body: %s\<close>
  | ErrThresholdType string int string
      \<comment> \<open>... Details: threshold value data type should be real, int or long, but received
          %s. HTTP code: %d. Body: %s\<close>
  | ErrThresholdEmpty int string
      \<comment> \<open>... Details: threshold value is empty, check your query. HTTP code: %d. Body: %s\<close>
  | ErrIsActive string string error
      \<comment> \<open>Failed to execute IsActive function. Scaled object: %s. Namespace: %s. Inner
          Error: %v\<close>
  | ErrGetMetrics string string error
      \<comment> \<open>Failed to get metrics. Scaled object: %s. Namespace: %s. Inner Error: %v\<close>

section \<open>The credential fingerprint\<close>

subsection \<open>SHA-1 (\<^verbatim>\<open>crypto/sha1\<close>) and base64 (\<^verbatim>\<open>encoding/base64\<close>)\<close>

type_synonym byte = "8 word"

definition be64 :: "64 word \<Rightarrow> byte list" where
  "be64 n = map (\<lambda>i. ucast (drop_bit (8 * (7 - i)) n)) [0..<8]"

definition sha1_pad :: "byte list \<Rightarrow> byte list" where
  "sha1_pad m = m @ [0x80] @ replicate ((119 - length m mod 64) mod 64) 0 @ be64 (of_nat (8 * length m))"

fun be32s :: "byte list \<Rightarrow> 32 word list" where
  "be32s (a # b # c # d # rest) =
     (push_bit 24 (ucast a) OR push_bit 16 (ucast b) OR push_bit 8 (ucast c) OR ucast d) # be32s rest"
| "be32s _ = []"

primrec sha1_schedule :: "nat \<Rightarrow> 32 word list \<Rightarrow> 32 word list" where
  "sha1_schedule 0 w = w"
| "sha1_schedule (Suc k) w =
     sha1_schedule k (w @ [word_rotl 1 (w ! (length w - 3) XOR w ! (length w - 8)
        XOR w ! (length w - 14) XOR w ! (length w - 16))])"

type_synonym sha1_state = "32 word \<times> 32 word \<times> 32 word \<times> 32 word \<times> 32 word"

definition sha1_f :: "nat \<Rightarrow> 32 word \<Rightarrow> 32 word \<Rightarrow> 32 word \<Rightarrow> 32 word" where
  "sha1_f t b c d =
     (if t < 20 then (b AND c) OR (NOT b AND d)
      else if t < 40 then b XOR c XOR d
      else if t < 60 then (b AND c) OR (b AND d) OR (c AND d)
      else b XOR c XOR d)"

definition sha1_k :: "nat \<Rightarrow> 32 word" where
  "sha1_k t =
     (if t < 20 then 0x5A827999 else if t < 40 then 0x6ED9EBA1
      else if t < 60 then 0x8F1BBCDC else 0xCA62C1D6)"

definition sha1_round :: "32 word list \<Rightarrow> nat \<Rightarrow> sha1_state \<Rightarrow> sha1_state" where
  "sha1_round w t st =
     (case st of (a, b, c, d, e) \<Rightarrow>
        (word_rotl 5 a + sha1_f t b c d + e + sha1_k t + w ! t, a, word_rotl 30 b, c, d))"

definition sha1_block :: "byte list \<Rightarrow> sha1_state \<Rightarrow> sha1_state" where
  "sha1_block blk h =
     (case h of (h0, h1, h2, h3, h4) \<Rightarrow>
       (case fold (sha1_round (sha1_schedule 64 (be32s blk))) [0..<80] h of
          (a, b, c, d, e) \<Rightarrow> (h0 + a, h1 + b, h2 + c, h3 + d, h4 + e)))"

primrec sha1_blocks :: "nat \<Rightarrow> byte list \<Rightarrow> sha1_state \<Rightarrow> sha1_state" where
  "sha1_blocks 0 bs h = h"
| "sha1_blocks (Suc n) bs h = sha1_blocks n (drop 64 bs) (sha1_block (take 64 bs) h)"

definition be32_bytes :: "32 word \<Rightarrow> byte list" where
  "be32_bytes x = [ucast (drop_bit 24 x), ucast (drop_bit 16 x), ucast (drop_bit 8 x), ucast x]"

definition sha1_Sum :: "string \<Rightarrow> byte list" where
  "sha1_Sum s =
     (let p = sha1_pad (map (\<lambda>c. of_nat (of_char c)) s) in
      case sha1_blocks (length p div 64) p
             (0x67452301, 0xEFCDAB89, 0x98BADCFE, 0x10325476, 0xC3D2E1F0) of
        (h0, h1, h2, h3, h4) \<Rightarrow>
          be32_bytes h0 @ be32_bytes h1 @ be32_bytes h2 @ be32_bytes h3 @ be32_bytes h4)"

definition encodeStd :: string where
  "encodeStd = ''ABCDEFGHIJKLMNOPQRSTUVWXYZabcdefghijklmnopqrstuvwxyz0123456789+/''"

definition b64 :: "byte \<Rightarrow> char" where
  "b64 x = encodeStd ! unat x"

fun base64_EncodeToString :: "byte list \<Rightarrow> string" where
  "base64_EncodeToString [] = []"
| "base64_EncodeToString [a] =
     [b64 (drop_bit 2 a), b64 (push_bit 4 (a AND 3)), CHR ''='', CHR ''='']"
| "base64_EncodeToString [a, b] =
     [b64 (drop_bit 2 a), b64 (push_bit 4 (a AND 3) OR drop_bit 4 b),
      b64 (push_bit 2 (b AND 15)), CHR ''='']"
| "base64_EncodeToString (a # b # c # rest) =
     [b64 (drop_bit 2 a), b64 (push_bit 4 (a AND 3) OR drop_bit 4 b),
      b64 (push_bit 2 (b AND 15) OR drop_bit 6 c), b64 (c AND 63)] @ base64_EncodeToString rest"

subsection \<open>\<^verbatim>\<open>getHash\<close>\<close>

text \<open>
  \<^verbatim>\<open>fmt.Sprintf("%s|%s", clientID, clientSecret)\<close> is the two strings with a bar between
  them. \<^verbatim>\<open>hash.Hash.Write\<close> never returns an error, so the second component of the
  result is always nil.
\<close>

definition getHash :: "string \<Rightarrow> string \<Rightarrow> string \<times> error option" where
  "getHash clientID' clientSecret' =
     (base64_EncodeToString (sha1_Sum (clientID' @ ''|'' @ clientSecret')), None)"


section \<open>The environment: clock, HTTP transport, JSON decoding\<close>

text \<open>
  A Go function either returns or panics; a panic unwinds through every caller here, since
  the file has no \<^verbatim>\<open>recover\<close>. A function that returns a pair \<^verbatim>\<open>(T, error)\<close> returns
  \<open>Inr\<close> of the value when the error is nil and \<open>Inl\<close> of the error otherwise; the value
  beside a non-nil error is the zero value of \<^verbatim>\<open>T\<close> on every such return of this file.
  \<^verbatim>\<open>runHTTP\<close> and its three callers, whose body and status code are read beside the
  error, return the triple as it is.
\<close>

datatype panic = NilPointerDereference | IndexOutOfRange nat nat

datatype 'a go = Returns 'a | Panics panic

text \<open>
  The three requests the scaler builds: the client-credentials grant (tenant, client id,
  client secret), the managed-identity request, and the query (workspace, query text,
  bearer token).
\<close>

datatype request =
    AADRequest string string string
  | IMDSRequest
  | LogAnalyticsRequest string string string

text \<open>
  An \<^verbatim>\<open>*http.Response\<close> as far as \<^verbatim>\<open>runHTTP\<close> reads it: the status code and what
  \<^verbatim>\<open>ioutil.ReadAll(resp.Body)\<close> gives.
\<close>

record response =
  StatusCode :: int
  Body :: "error + string"

text \<open>
  What the scaler calls but does not define is a parameter:
  \<^item> \<open>httpClient_Do\<close> is \<^verbatim>\<open>httpClient.Do(request)\<close>, a pair \<^verbatim>\<open>(*Response, error)\<close>
    whose first component may be nil; it sees the requests made so far, so that an
    endpoint may answer differently over time;
  \<^item> \<open>http_NewRequest\<close> is the error of \<^verbatim>\<open>http.NewRequest\<close> (nil when the URL parses);
  \<^item> \<open>json_Marshal\<close> is the error of \<^verbatim>\<open>json.Marshal\<close> on the query document;
  \<^item> \<open>json_Decode_tokenData\<close> and \<open>json_Decode_queryResult\<close> are
    \<^verbatim>\<open>json.NewDecoder(...).Decode\<close> into the two struct types;
  \<^item> \<open>float64_unrepresentable\<close> is the result of \<^verbatim>\<open>int64(f)\<close> for an \<^verbatim>\<open>f\<close> whose
    integer part does not fit \<^verbatim>\<open>int64\<close>, which Go leaves to the implementation.
\<close>

record env =
  httpClient_Do :: "request list \<Rightarrow> request \<Rightarrow> response option \<times> error option"
  http_NewRequest :: "request \<Rightarrow> error option"
  json_Marshal :: "string \<Rightarrow> error option"
  json_Decode_tokenData :: "string \<Rightarrow> error + tokenData"
  json_Decode_queryResult :: "string \<Rightarrow> error + queryResult"
  float64_unrepresentable :: "real \<Rightarrow> int64"

text \<open>
  The mutable world: \<open>clock\<close> is what \<^verbatim>\<open>time.Now().Unix()\<close> reads, \<open>tokenCache\<close> is the
  package-level map (its lock is not modelled: one call runs at a time), \<open>requests\<close>
  lists the requests handed to \<^verbatim>\<open>httpClient.Do\<close>, oldest first, and \<open>slept\<close> the
  durations, in nanoseconds, handed to \<^verbatim>\<open>time.Sleep\<close>.
\<close>

record world =
  clock :: int64
  tokenCache :: "string \<rightharpoonup> tokenData"
  requests :: "request list"
  slept :: "int64 list"

text \<open>
  \<^verbatim>\<open>time.Sleep(d)\<close> returns at once for \<^verbatim>\<open>d <= 0\<close>; otherwise the clock has moved on by
  the whole seconds of \<open>d\<close> when it returns. Nothing else moves the clock in this model.
\<close>

definition time_Sleep :: "int64 \<Rightarrow> world \<Rightarrow> world" where
  "time_Sleep d w =
     w\<lparr>clock := (if 0 <s d then clock w + word_of_int (sint d div 1000000000) else clock w),
       slept := slept w @ [d]\<rparr>"

definition time_Second :: int64 where
  "time_Second = 1000000000"

fun hasPrefix :: "string \<Rightarrow> string \<Rightarrow> bool" where
  "hasPrefix s [] = True"
| "hasPrefix [] (p # ps) = False"
| "hasPrefix (c # cs) (p # ps) = (c = p \<and> hasPrefix cs ps)"

fun strings_Contains :: "string \<Rightarrow> string \<Rightarrow> bool" where
  "strings_Contains [] substr = hasPrefix [] substr"
| "strings_Contains (c # cs) substr = (hasPrefix (c # cs) substr \<or> strings_Contains cs substr)"

text \<open>
  \<^verbatim>\<open>int64(f)\<close> on a \<^verbatim>\<open>float64\<close> discards the fraction (truncation towards zero).
\<close>

definition trunc_float64 :: "real \<Rightarrow> int" where
  "trunc_float64 f = (if 0 \<le> f then \<lfloor>f\<rfloor> else \<lceil>f\<rceil>)"

definition int64_of_float64 :: "env \<Rightarrow> real \<Rightarrow> int64" where
  "int64_of_float64 env f =
     (if - (2 ^ 63) \<le> trunc_float64 f \<and> trunc_float64 f < 2 ^ 63 then word_of_int (trunc_float64 f)
      else float64_unrepresentable env f)"

section \<open>The token store\<close>

definition getTokenFromCache :: "string \<Rightarrow> string \<Rightarrow> world \<Rightarrow> tokenData \<times> error option" where
  "getTokenFromCache clientID' clientSecret' w =
     (case getHash clientID' clientSecret' of
        (key, Some err) \<Rightarrow> (tokenData_zero, Some (ErrHash err))
      | (key, None) \<Rightarrow>
          (case tokenCache w key of
             Some val \<Rightarrow>
               if AccessToken val \<noteq> [] then (val, None) else (tokenData_zero, Some ErrTokenCache)
           | None \<Rightarrow> (tokenData_zero, Some ErrTokenCache)))"

definition setTokenInCache :: "string \<Rightarrow> string \<Rightarrow> tokenData \<Rightarrow> world \<Rightarrow> error option \<times> world" where
  "setTokenInCache clientID' clientSecret' tokenInfo w =
     (case getHash clientID' clientSecret' of
        (key, Some err) \<Rightarrow> (Some err, w)
      | (key, None) \<Rightarrow> (None, w\<lparr>tokenCache := (tokenCache w)(key \<mapsto> tokenInfo)\<rparr>))"

section \<open>The HTTP calls\<close>

text \<open>
  \<^verbatim>\<open>runHTTP\<close> reads \<^verbatim>\<open>resp.StatusCode\<close> in its first error branch and
  \<^verbatim>\<open>resp.Body\<close> after it: with a nil \<^verbatim>\<open>resp\<close> either is a nil pointer dereference.
\<close>

definition runHTTP ::
  "env \<Rightarrow> request \<Rightarrow> string \<Rightarrow> world \<Rightarrow> (string \<times> int \<times> error option) go \<times> world" where
  "runHTTP env request caller w =
     (let w' = w\<lparr>requests := requests w @ [request]\<rparr> in
      case httpClient_Do env (requests w) request of
        (None, _) \<Rightarrow> (Panics NilPointerDereference, w')
      | (Some resp, Some err) \<Rightarrow>
          (Returns ([], StatusCode resp, Some (ErrCalling caller err)), w')
      | (Some resp, None) \<Rightarrow>
          (case Body resp of
             Inl err \<Rightarrow> (Returns ([], StatusCode resp, Some (ErrReadingBody caller err)), w')
           | Inr body \<Rightarrow> (Returns (body, StatusCode resp, None), w')))"

definition executeLogAnalyticsREST ::
  "env \<Rightarrow> 'a azureLogAnalyticsScaler_scheme \<Rightarrow> string \<Rightarrow> tokenData \<Rightarrow> world
     \<Rightarrow> (string \<times> int \<times> error option) go \<times> world" where
  "executeLogAnalyticsREST env s query' tokenInfo w =
     (case json_Marshal env query' of
        Some err \<Rightarrow> (Returns ([], 0, Some (ErrMarshal err)), w)
      | None \<Rightarrow>
          (let request =
             LogAnalyticsRequest (workspaceID (metadata s)) query' (AccessToken tokenInfo) in
           case http_NewRequest env request of
             Some err \<Rightarrow> (Returns ([], 0, Some (ErrRequestLA err)), w)
           | None \<Rightarrow> runHTTP env request ''Log Analytics REST api'' w))"

definition executeAADApicall ::
  "env \<Rightarrow> 'a azureLogAnalyticsScaler_scheme \<Rightarrow> world
     \<Rightarrow> (string \<times> int \<times> error option) go \<times> world" where
  "executeAADApicall env s w =
     (let request = AADRequest (tenantID (metadata s)) (clientID (metadata s))
                      (clientSecret (metadata s)) in
      case http_NewRequest env request of
        Some err \<Rightarrow> (Returns ([], 0, Some (ErrRequestAAD err)), w)
      | None \<Rightarrow> runHTTP env request ''AAD'' w)"

definition executeIMDSApicall ::
  "env \<Rightarrow> 'a azureLogAnalyticsScaler_scheme \<Rightarrow> world
     \<Rightarrow> (string \<times> int \<times> error option) go \<times> world" where
  "executeIMDSApicall env s w =
     (case http_NewRequest env IMDSRequest of
        Some err \<Rightarrow> (Returns ([], 0, Some (ErrRequestIMDS err)), w)
      | None \<Rightarrow> runHTTP env IMDSRequest ''IMDS'' w)"

section \<open>The token lifecycle\<close>

definition getAuthorizationToken ::
  "env \<Rightarrow> 'a azureLogAnalyticsScaler_scheme \<Rightarrow> world \<Rightarrow> (error + tokenData) go \<times> world" where
  "getAuthorizationToken env s w =
     (case (if podIdentity (metadata s) = [] then executeAADApicall env s w
            else executeIMDSApicall env s w) of
        (Panics p, w') \<Rightarrow> (Panics p, w')
      | (Returns (body, statusCode, err), w') \<Rightarrow>
          (Returns
            (case err of
               Some e \<Rightarrow> Inl (ErrToken statusCode e body)
             | None \<Rightarrow>
                 if length body = 0 then Inl (ErrTokenEmptyBody statusCode)
                 else (case json_Decode_tokenData env body of
                         Inl e \<Rightarrow> Inl (ErrTokenDecode statusCode e body)
                       | Inr tokenInfo \<Rightarrow>
                           if statusCode = 200 then Inr tokenInfo
                           else Inl (ErrTokenUnknown statusCode body))), w'))"

definition refreshAccessToken ::
  "env \<Rightarrow> 'a azureLogAnalyticsScaler_scheme \<Rightarrow> world \<Rightarrow> (error + tokenData) go \<times> world" where
  "refreshAccessToken env s w =
     (case getAuthorizationToken env s w of
        (Panics p, w') \<Rightarrow> (Panics p, w')
      | (Returns (Inl err), w') \<Rightarrow> (Returns (Inl err), w')
      | (Returns (Inr tokenInfo), w') \<Rightarrow>
          (let currentTimeSec = clock w' in
           if currentTimeSec <s NotBefore tokenInfo then
             if currentTimeSec <s NotBefore tokenInfo + 10 then
               (let sleepDurationSec = NotBefore tokenInfo - currentTimeSec + 1 in
                (Returns (Inr tokenInfo), time_Sleep (sleepDurationSec * time_Second) w'))
             else (Returns (Inl (ErrTokenStartDate (NotBefore tokenInfo - currentTimeSec))), w')
           else (Returns (Inr tokenInfo), w')))"

text \<open>
  The block that follows a refresh in \<^verbatim>\<open>getAccessToken\<close> and in \<^verbatim>\<open>executeQuery\<close>:
  the token is cached under the client id and secret, or under the pod identity taken
  twice, and the error of \<^verbatim>\<open>setTokenInCache\<close> is dropped.
\<close>

definition cacheToken :: "'a azureLogAnalyticsScaler_scheme \<Rightarrow> tokenData \<Rightarrow> world \<Rightarrow> world" where
  "cacheToken s tokenInfo w =
     (if podIdentity (metadata s) = []
      then snd (setTokenInCache (clientID (metadata s)) (clientSecret (metadata s)) tokenInfo w)
      else snd (setTokenInCache (podIdentity (metadata s)) (podIdentity (metadata s)) tokenInfo w))"

definition getAccessToken ::
  "env \<Rightarrow> 'a azureLogAnalyticsScaler_scheme \<Rightarrow> world \<Rightarrow> (error + tokenData) go \<times> world" where
  "getAccessToken env s w =
     (let currentTimeSec = clock w;
          tokenInfo =
            (if podIdentity (metadata s) = []
             then fst (getTokenFromCache (clientID (metadata s)) (clientSecret (metadata s)) w)
             else fst (getTokenFromCache (podIdentity (metadata s)) (podIdentity (metadata s)) w))
      in
      if ExpiresOn tokenInfo <s currentTimeSec + 30 then
        (case refreshAccessToken env s w of
           (Panics p, w') \<Rightarrow> (Panics p, w')
         | (Returns (Inl err), w') \<Rightarrow> (Returns (Inl err), w')
         | (Returns (Inr newTokenInfo), w') \<Rightarrow>
             (Returns (Inr newTokenInfo), cacheToken s newTokenInfo w'))
      else (Returns (Inr tokenInfo), w))"


section \<open>Query execution and validation of the result\<close>

definition numericType :: "string \<Rightarrow> bool" where
  "numericType t = (t = ''real'' \<or> t = ''int'' \<or> t = ''long'')"

text \<open>
  The value column of \<^verbatim>\<open>executeQuery\<close> (the block under
  \<^verbatim>\<open>len(queryData.Tables[0].Rows[0]) > 0\<close>), given the first column and the row; no cell
  leaves the value at 0.
\<close>

definition executeQuery_value ::
  "env \<Rightarrow> int \<Rightarrow> string \<Rightarrow> column \<Rightarrow> cell list \<Rightarrow> error + int64" where
  "executeQuery_value env statusCode body column0 row =
     (case row of
        [] \<Rightarrow> Inr 0
      | metricVal # _ \<Rightarrow>
          (let metricDataType = cType column0 in
           if metricVal \<noteq> Nil then
             if numericType metricDataType then
               (case metricVal of
                  Float64 metricValue' \<Rightarrow>
                    if metricValue' < 0 then Inl (ErrValueNegative metricValue' statusCode body)
                    else Inr (int64_of_float64 env metricValue')
                | _ \<Rightarrow> Inl (ErrValueNotFloat statusCode body))
             else Inl (ErrValueType metricDataType statusCode body)
           else Inr 0))"

text \<open>
  The threshold column (the block under \<^verbatim>\<open>len(queryData.Tables[0].Rows[0]) > 1\<close>):
  \<^verbatim>\<open>Columns[1]\<close> is read before anything else, and Go panics when the index is not
  below the length.
\<close>

definition executeQuery_threshold ::
  "env \<Rightarrow> int \<Rightarrow> string \<Rightarrow> column list \<Rightarrow> cell list \<Rightarrow> (error + int64) go" where
  "executeQuery_threshold env statusCode body columns row =
     (if length row > 1 then
        if length columns > 1 then
          (let thresholdDataType = cType (columns ! 1);
               thresholdVal = row ! 1 in
           if thresholdVal \<noteq> Nil then
             if numericType thresholdDataType then
               (case thresholdVal of
                  Float64 thresholdValue \<Rightarrow>
                    if thresholdValue < 0
                    then Returns (Inl (ErrThresholdNegative thresholdValue statusCode body))
                    else Returns (Inr (int64_of_float64 env thresholdValue))
                | _ \<Rightarrow> Returns (Inl (ErrThresholdNotFloat statusCode body)))
             else Returns (Inl (ErrThresholdType thresholdDataType statusCode body))
           else Returns (Inl (ErrThresholdEmpty statusCode body)))
        else Panics (IndexOutOfRange 1 (length columns))
      else Returns (Inr (- 1)))"

text \<open>
  The branch \<^verbatim>\<open>statusCode == 200\<close> of \<^verbatim>\<open>executeQuery\<close>: the pre-validation of the
  shape, then the two columns. The threshold that \<^verbatim>\<open>metricsInfo\<close> starts with
  (\<^verbatim>\<open>s.metadata.threshold\<close>) is overwritten on every path that returns it.
\<close>

definition executeQuery_validate ::
  "env \<Rightarrow> int \<Rightarrow> string \<Rightarrow> queryResult \<Rightarrow> (error + metricsData) go" where
  "executeQuery_validate env statusCode body queryData =
     (case Tables queryData of
        [] \<Rightarrow> Returns (Inl (ErrNoResults statusCode body))
      | table0 # _ \<Rightarrow>
          if length (Columns table0) = 0 \<or> length (Rows table0) = 0
          then Returns (Inl (ErrNoResults statusCode body))
          else if length (Tables queryData) > 1
          then Returns (Inl (ErrTooManyTables (length (Tables queryData)) statusCode body))
          else if length (Rows table0) > 1
          then Returns (Inl (ErrTooManyRows (length (Rows table0)) statusCode body))
          else
            (case executeQuery_value env statusCode body (hd (Columns table0)) (hd (Rows table0)) of
               Inl err \<Rightarrow> Returns (Inl err)
             | Inr value \<Rightarrow>
                 (case executeQuery_threshold env statusCode body (Columns table0)
                         (hd (Rows table0)) of
                    Panics p \<Rightarrow> Panics p
                  | Returns (Inl err) \<Rightarrow> Returns (Inl err)
                  | Returns (Inr threshold') \<Rightarrow>
                      Returns (Inr \<lparr>mvalue = value, mthreshold = threshold'\<rparr>))))"

text \<open>
  What \<^verbatim>\<open>executeQuery\<close> does with the response it ends up with, from the test of the
  status code to its last line.
\<close>

definition executeQuery_response ::
  "env \<Rightarrow> string \<Rightarrow> int \<Rightarrow> error option \<Rightarrow> (error + metricsData) go" where
  "executeQuery_response env body statusCode err =
     (if statusCode \<noteq> 200 \<and> statusCode \<noteq> 0
      then Returns (Inl (ErrQueryHTTP statusCode err body))
      else case err of
        Some e \<Rightarrow> Returns (Inl e)
      | None \<Rightarrow>
          if length body = 0 then Returns (Inl (ErrQueryEmptyBody statusCode))
          else (case json_Decode_queryResult env body of
                  Inl e \<Rightarrow> Returns (Inl (ErrQueryDecode statusCode e body))
                | Inr queryData \<Rightarrow>
                    if statusCode = 200 then executeQuery_validate env statusCode body queryData
                    else Returns (Inl (ErrQueryUnknown statusCode body))))"

text \<open>
  In the expired-token block \<^verbatim>\<open>tokenInfo, err := s.refreshAccessToken()\<close> declares a new
  \<^verbatim>\<open>tokenInfo\<close> and a new \<^verbatim>\<open>err\<close>, local to the block. The retry assigns the outer
  \<^verbatim>\<open>body\<close> and \<^verbatim>\<open>statusCode\<close> but the block's \<^verbatim>\<open>err\<close>, so the \<^verbatim>\<open>err\<close> tested after
  the block is still the one of the first request. A failed refresh returns the zero
  \<^verbatim>\<open>tokenData\<close>, which is cached before the error is looked at.
\<close>

definition executeQuery ::
  "env \<Rightarrow> 'a azureLogAnalyticsScaler_scheme \<Rightarrow> string \<Rightarrow> tokenData \<Rightarrow> world
     \<Rightarrow> (error + metricsData) go \<times> world" where
  "executeQuery env s query' tokenInfo w =
     (case executeLogAnalyticsREST env s query' tokenInfo w of
        (Panics p, w1) \<Rightarrow> (Panics p, w1)
      | (Returns (body, statusCode, err), w1) \<Rightarrow>
          if statusCode = 403 \<or> (length body > 0 \<and> strings_Contains body ''TokenExpired'') then
            (case refreshAccessToken env s w1 of
               (Panics p, w2) \<Rightarrow> (Panics p, w2)
             | (Returns (Inl err'), w2) \<Rightarrow> (Returns (Inl err'), cacheToken s tokenData_zero w2)
             | (Returns (Inr tokenInfo'), w2) \<Rightarrow>
                 (case executeLogAnalyticsREST env s query' tokenInfo'
                         (cacheToken s tokenInfo' w2) of
                    (Panics p, w3) \<Rightarrow> (Panics p, w3)
                  | (Returns (body', statusCode', err'), w3) \<Rightarrow>
                      (executeQuery_response env body' statusCode' err, w3)))
          else (executeQuery_response env body statusCode err, w1))"

definition getMetricData ::
  "env \<Rightarrow> 'a azureLogAnalyticsScaler_scheme \<Rightarrow> world \<Rightarrow> (error + metricsData) go \<times> world" where
  "getMetricData env s w =
     (case getAccessToken env s w of
        (Panics p, w') \<Rightarrow> (Panics p, w')
      | (Returns (Inl err), w') \<Rightarrow> (Returns (Inl err), w')
      | (Returns (Inr tokenInfo), w') \<Rightarrow> executeQuery env s (query (metadata s)) tokenInfo w')"

section \<open>The scaler's operations\<close>

definition newSessionCache :: sessionCache where
  "newSessionCache = \<lparr>metricValue = - 1, metricThreshold = - 1\<rparr>"

definition updateCache ::
  "env \<Rightarrow> azureLogAnalyticsScaler \<Rightarrow> world
     \<Rightarrow> (error option) go \<times> azureLogAnalyticsScaler \<times> world" where
  "updateCache env s w =
     (if metricValue (cache s) <s 0 then
        (case getMetricData env s w of
           (Panics p, w') \<Rightarrow> (Panics p, s, w')
         | (Returns (Inl err), w') \<Rightarrow> (Returns (Some err), s, w')
         | (Returns (Inr receivedMetric), w') \<Rightarrow>
             (Returns None,
              s\<lparr>cache :=
                  \<lparr>metricValue = mvalue receivedMetric,
                   metricThreshold =
                     (if 0 <s mthreshold receivedMetric then mthreshold receivedMetric
                      else threshold (metadata s))\<rparr>\<rparr>,
              w'))
      else (Returns None, s, w))"

definition IsActive ::
  "env \<Rightarrow> azureLogAnalyticsScaler \<Rightarrow> world
     \<Rightarrow> (error + bool) go \<times> azureLogAnalyticsScaler \<times> world" where
  "IsActive env s w =
     (case updateCache env s w of
        (Panics p, s', w') \<Rightarrow> (Panics p, s', w')
      | (Returns (Some err), s', w') \<Rightarrow>
          (Returns (Inl (ErrIsActive (name s) (namespace s) err)), s', w')
      | (Returns None, s', w') \<Rightarrow> (Returns (Inr (0 <s metricValue (cache s'))), s', w'))"

text \<open>
  An \<^verbatim>\<open>external_metrics.ExternalMetricValue\<close>: the name asked for, the quantity and the
  time of \<^verbatim>\<open>metav1.Now()\<close>.
\<close>

record externalMetricValue =
  MetricName :: string
  Value :: int64
  Timestamp :: int64

definition GetMetrics ::
  "env \<Rightarrow> azureLogAnalyticsScaler \<Rightarrow> string \<Rightarrow> world
     \<Rightarrow> (error + externalMetricValue list) go \<times> world" where
  "GetMetrics env s metricName w =
     (case getMetricData env s w of
        (Panics p, w') \<Rightarrow> (Panics p, w')
      | (Returns (Inl err), w') \<Rightarrow>
          (Returns (Inl (ErrGetMetrics (name s) (namespace s) err)), w')
      | (Returns (Inr receivedMetric), w') \<Rightarrow>
          (Returns (Inr [\<lparr>MetricName = metricName, Value = mvalue receivedMetric,
                           Timestamp = clock w'\<rparr>]), w'))"


section \<open>Notions for stating the properties\<close>

text \<open>
  The cache key of a scaler (the hash that \<^verbatim>\<open>getAccessToken\<close> and \<^verbatim>\<open>executeQuery\<close>
  look up and store under) and the request its auth provider sends.
\<close>

definition cacheKey :: "'a azureLogAnalyticsScaler_scheme \<Rightarrow> string" where
  "cacheKey s =
     (if podIdentity (metadata s) = []
      then fst (getHash (clientID (metadata s)) (clientSecret (metadata s)))
      else fst (getHash (podIdentity (metadata s)) (podIdentity (metadata s))))"

definition tokenRequest :: "'a azureLogAnalyticsScaler_scheme \<Rightarrow> request" where
  "tokenRequest s =
     (if podIdentity (metadata s) = []
      then AADRequest (tenantID (metadata s)) (clientID (metadata s)) (clientSecret (metadata s))
      else IMDSRequest)"

text \<open>
  The cache holds no token that \<^verbatim>\<open>getAccessToken\<close> may hand out: nothing under the key,
  an entry with an empty access token, or one that expires in less than 30 seconds.
\<close>

definition stale :: "'a azureLogAnalyticsScaler_scheme \<Rightarrow> world \<Rightarrow> bool" where
  "stale s w =
     (case tokenCache w (cacheKey s) of
        None \<Rightarrow> True
      | Some t \<Rightarrow> AccessToken t = [] \<or> sint (ExpiresOn t) < sint (clock w) + 30)"




section \<open>Sample inputs\<close>

text \<open>Concrete environments and inputs on which the theorems below are run.\<close>

definition sample_table :: "string list \<Rightarrow> cell list list \<Rightarrow> table" where
  "sample_table types rows =
     \<lparr>tName = ''PrimaryResult'',
      Columns = map (\<lambda>t. \<lparr>cName = ''c'', cType = t\<rparr>) types, Rows = rows\<rparr>"

text \<open>An environment whose transport fails to connect: no response, and an error.\<close>

definition offline_env :: env where
  "offline_env =
     \<lparr>httpClient_Do = (\<lambda>history request. (None, Some (External ''connection refused''))),
      http_NewRequest = (\<lambda>request. None),
      json_Marshal = (\<lambda>q. None),
      json_Decode_tokenData = (\<lambda>body. Inl (External ''EOF'')),
      json_Decode_queryResult = (\<lambda>body. Inl (External ''EOF'')),
      float64_unrepresentable = (\<lambda>f. - (2 ^ 63))\<rparr>"

text \<open>A service-principal scaler with a fresh session cache, and an empty world.\<close>

definition sample_metadata :: azureLogAnalyticsMetadata where
  "sample_metadata =
     \<lparr>tenantID = ''tenant'', clientID = ''client'', clientSecret = ''secret'',
      workspaceID = ''workspace'', podIdentity = [], query = ''Heartbeat | count'',
      threshold = 10\<rparr>"

definition sample_scaler :: azureLogAnalyticsScaler where
  "sample_scaler =
     \<lparr>metadata = sample_metadata, cache = newSessionCache, name = ''scaler'',
      namespace = ''default''\<rparr>"

definition sample_token :: "int64 \<Rightarrow> int64 \<Rightarrow> tokenData" where
  "sample_token notBefore expiresOn =
     \<lparr>TokenType = ''Bearer'', ExpiresIn = 3600, ExtExpiresIn = 3600, ExpiresOn = expiresOn,
      NotBefore = notBefore, Resource = ''https://api.loganalytics.io/'',
      AccessToken = ''token''\<rparr>"

definition sample_world :: "int64 \<Rightarrow> world" where
  "sample_world now = \<lparr>clock = now, tokenCache = Map.empty, requests = [], slept = []\<rparr>"

text \<open>
  An environment whose auth provider answers 200 with a body that decodes to \<open>token\<close>,
  and whose query endpoint answers every request with \<open>status\<close> and \<open>body\<close>, a body that
  decodes to \<open>tables\<close>.
\<close>

definition sample_env :: "tokenData \<Rightarrow> int \<Rightarrow> string \<Rightarrow> queryResult \<Rightarrow> env" where
  "sample_env token status body tables =
     \<lparr>httpClient_Do =
        (\<lambda>history request.
           case request of
             LogAnalyticsRequest workspace q bearer \<Rightarrow>
               (Some \<lparr>StatusCode = status, Body = Inr body\<rparr>, None)
           | _ \<Rightarrow> (Some \<lparr>StatusCode = 200, Body = Inr ''token response''\<rparr>, None)),
      http_NewRequest = (\<lambda>request. None),
      json_Marshal = (\<lambda>q. None),
      json_Decode_tokenData =
        (\<lambda>b. if b = ''token response'' then Inr token else Inl (External ''EOF'')),
      json_Decode_queryResult =
        (\<lambda>b. if b = body then Inr tables else Inl (External ''EOF'')),
      float64_unrepresentable = (\<lambda>f. - (2 ^ 63))\<rparr>"



text \<open>A result with one count, and what it decodes to.\<close>

definition count_body :: string where
  \<open>count_body =
     ''{"tables":[{"name":"PrimaryResult","columns":[{"name":"Count","type":"long"}],"rows":[[5]]}]}''\<close>

definition count_tables :: queryResult where
  "count_tables =
     \<lparr>Tables = [\<lparr>tName = ''PrimaryResult'',
                  Columns = [\<lparr>cName = ''Count'', cType = ''long''\<rparr>],
                  Rows = [[Float64 5]]\<rparr>]\<rparr>"


text \<open>
  A result whose count is the greatest \<^verbatim>\<open>long\<close>, and what it decodes to: the nearest
  \<^verbatim>\<open>float64\<close> to 9223372036854775807 is \<open>2^63\<close>.
\<close>

definition overflow_body :: string where
  \<open>overflow_body =
     ''{"tables":[{"name":"PrimaryResult","columns":[{"name":"Count","type":"long"}],"rows":[[9223372036854775807]]}]}''\<close>

definition overflow_tables :: queryResult where
  "overflow_tables =
     \<lparr>Tables = [\<lparr>tName = ''PrimaryResult'',
                  Columns = [\<lparr>cName = ''Count'', cType = ''long''\<rparr>],
                  Rows = [[Float64 9223372036854775808]]\<rparr>]\<rparr>"

section \<open>Properties of the validation\<close>

lemma int64_of_float64_in_range:
  assumes "0 \<le> f" and "f < 2 ^ 63"
  shows "sint (int64_of_float64 env f) = \<lfloor>f\<rfloor>"
proof -
  have lo: "0 \<le> \<lfloor>f\<rfloor>" using assms(1) by simp
  have hi: "\<lfloor>f\<rfloor> < 2 ^ 63" using assms(2) by (simp add: floor_less_iff)
  have "sint (word_of_int \<lfloor>f\<rfloor> :: int64) = \<lfloor>f\<rfloor>"
    using lo hi by (simp add: sint_sbintrunc' signed_take_bit_int_eq_self)
  then show ?thesis
    using lo hi assms(1) by (simp add: int64_of_float64_def trunc_float64_def)
qed

lemma executeQuery_value_Inr:
  "executeQuery_value env sc b col (c # rest) = Inr v \<Longrightarrow>
     (if c = Nil then v = 0
      else numericType (cType col) \<and>
           (\<exists>f. c = Float64 f \<and> 0 \<le> f \<and> v = int64_of_float64 env f))"
  by (cases c) (auto simp: executeQuery_value_def Let_def split: if_splits)

lemma executeQuery_validate_Inr:
  assumes "Tables q = [t]" and "Rows t = [row]"
    and "executeQuery_validate env sc b q = Returns (Inr m)"
  shows "executeQuery_value env sc b (hd (Columns t)) row = Inr (mvalue m)"
    and "executeQuery_threshold env sc b (Columns t) row = Returns (Inr (mthreshold m))"
  using assms
  by (auto simp: executeQuery_validate_def split: if_splits sum.splits go.splits)

lemma executeQuery_validate_single:
  assumes "Tables q = [t]" and "Columns t \<noteq> []" and "Rows t = [row]"
  shows "executeQuery_validate env sc b q =
     (case executeQuery_value env sc b (hd (Columns t)) row of
        Inl err \<Rightarrow> Returns (Inl err)
      | Inr v \<Rightarrow>
          (case executeQuery_threshold env sc b (Columns t) row of
             Panics p \<Rightarrow> Panics p
           | Returns (Inl err) \<Rightarrow> Returns (Inl err)
           | Returns (Inr th) \<Rightarrow> Returns (Inr \<lparr>mvalue = v, mthreshold = th\<rparr>)))"
  using assms by (simp add: executeQuery_validate_def split: sum.splits)

text \<open>
  The value column, case by case: no cell and a null cell leave the value at 0; a number
  in a numeric column is rejected when negative and converted otherwise; anything else is
  an error.
\<close>

lemma executeQuery_value_cases:
  "executeQuery_value env sc b col row =
     (case row of
        [] \<Rightarrow> Inr 0
      | Nil # _ \<Rightarrow> Inr 0
      | Float64 f # _ \<Rightarrow>
          if numericType (cType col)
          then if f < 0 then Inl (ErrValueNegative f sc b) else Inr (int64_of_float64 env f)
          else Inl (ErrValueType (cType col) sc b)
      | _ # _ \<Rightarrow>
          if numericType (cType col) then Inl (ErrValueNotFloat sc b)
          else Inl (ErrValueType (cType col) sc b))"
  by (simp add: executeQuery_value_def Let_def split: list.splits cell.splits)

text \<open>
  A table with a single row whose first cell is \<open>c\<close>. If validation succeeds with the
  sample \<open>m\<close>, then either \<open>c\<close> is null and the value of \<open>m\<close> is 0, or the declared type
  of column 0 is one of real, int, long, \<open>c\<close> is a number \<open>f \<ge> 0\<close>, and the value of \<open>m\<close>
  is \<^verbatim>\<open>int64(f)\<close>, which is the integer part of \<open>f\<close> when \<open>f < 2^63\<close>. A negative number in
  a numeric value column is rejected, not clamped, and a row that is a single null cell
  gives the sample (0, -1).
\<close>

lemma executeQuery_validate_value:
  assumes "Tables q = [t]" and "Rows t = [c # rest]"
  shows "(executeQuery_validate env sc b q = Returns (Inr m) \<longrightarrow>
            (if c = Nil then mvalue m = 0
             else numericType (cType (hd (Columns t))) \<and>
                  (\<exists>f. c = Float64 f \<and> 0 \<le> f \<and> mvalue m = int64_of_float64 env f \<and>
                       (f < 2 ^ 63 \<longrightarrow> sint (mvalue m) = \<lfloor>f\<rfloor>)))) \<and>
         (Columns t \<noteq> [] \<and> numericType (cType (hd (Columns t))) \<and> c = Float64 g \<and> g < 0 \<longrightarrow>
            executeQuery_validate env sc b q = Returns (Inl (ErrValueNegative g sc b))) \<and>
         (Columns t \<noteq> [] \<and> c = Nil \<and> rest = [] \<longrightarrow>
            executeQuery_validate env sc b q =
              Returns (Inr \<lparr>mvalue = 0, mthreshold = - 1\<rparr>))"
proof (intro conjI impI)
  assume ok: "executeQuery_validate env sc b q = Returns (Inr m)"
  have v: "executeQuery_value env sc b (hd (Columns t)) (c # rest) = Inr (mvalue m)"
    using executeQuery_validate_Inr(1) [OF assms ok] .
  show "if c = Nil then mvalue m = 0
        else numericType (cType (hd (Columns t))) \<and>
             (\<exists>f. c = Float64 f \<and> 0 \<le> f \<and> mvalue m = int64_of_float64 env f \<and>
                  (f < 2 ^ 63 \<longrightarrow> sint (mvalue m) = \<lfloor>f\<rfloor>))"
    using executeQuery_value_Inr [OF v] by (auto simp: int64_of_float64_in_range)
next
  assume neg: "Columns t \<noteq> [] \<and> numericType (cType (hd (Columns t))) \<and> c = Float64 g \<and> g < 0"
  then have "executeQuery_value env sc b (hd (Columns t)) (c # rest) =
      Inl (ErrValueNegative g sc b)"
    by (simp add: executeQuery_value_def)
  then show "executeQuery_validate env sc b q = Returns (Inl (ErrValueNegative g sc b))"
    using neg assms by (simp add: executeQuery_validate_single)
next
  assume null: "Columns t \<noteq> [] \<and> c = Nil \<and> rest = []"
  then show "executeQuery_validate env sc b q = Returns (Inr \<lparr>mvalue = 0, mthreshold = - 1\<rparr>)"
    using assms
    by (simp add: executeQuery_validate_single executeQuery_value_cases
        executeQuery_threshold_def)
qed

lemma executeQuery_validate_value_examples:
  "executeQuery_validate offline_env 200 ''{}''
     \<lparr>Tables = [sample_table [''real'', ''real''] [[Float64 (25 / 2), Float64 100]]]\<rparr> =
     Returns (Inr \<lparr>mvalue = 12, mthreshold = 100\<rparr>) \<and>
   executeQuery_validate offline_env 200 ''{}'' \<lparr>Tables = [sample_table [''long''] [[Nil]]]\<rparr> =
     Returns (Inr \<lparr>mvalue = 0, mthreshold = - 1\<rparr>) \<and>
   executeQuery_validate offline_env 200 ''{}''
     \<lparr>Tables = [sample_table [''real''] [[Float64 (- 1)]]]\<rparr> =
     Returns (Inl (ErrValueNegative (- 1) 200 ''{}''))"
  by (simp add: executeQuery_validate_def executeQuery_value_def executeQuery_threshold_def
      sample_table_def numericType_def int64_of_float64_def trunc_float64_def)

text \<open>
  A number of \<open>2^63\<close> or more passes the test \<^verbatim>\<open>metricValue < 0\<close> and is converted by
  \<^verbatim>\<open>int64(metricValue)\<close>; whatever the platform makes of the conversion, the value of the
  sample is below \<open>2^63\<close> and so is not the integer part of the number.
\<close>

lemma executeQuery_validate_value_out_of_range:
  assumes "Tables q = [t]" and "Rows t = [Float64 f # rest]" and "2 ^ 63 \<le> f"
    and "executeQuery_validate env sc b q = Returns (Inr m)"
  shows "mvalue m = float64_unrepresentable env f" and "sint (mvalue m) < \<lfloor>f\<rfloor>"
proof -
  have v: "executeQuery_value env sc b (hd (Columns t)) (Float64 f # rest) = Inr (mvalue m)"
    using executeQuery_validate_Inr(1) [OF assms(1,2,4)] .
  have big: "2 ^ 63 \<le> \<lfloor>f\<rfloor>" using assms(3) by (simp add: le_floor_iff)
  have pos: "0 \<le> f" using assms(3) by (rule order_trans [rotated]) simp
  from v pos big show "mvalue m = float64_unrepresentable env f"
    by (auto simp: executeQuery_value_cases int64_of_float64_def trunc_float64_def
        split: if_splits)
  have "sint (mvalue m) < 2 ^ 63" using sint_lt [of "mvalue m"] by simp
  from this big show "sint (mvalue m) < \<lfloor>f\<rfloor>" by (rule less_le_trans)
qed

text \<open>
  Claim C4, at a table with one column of type long and the row
  \<^verbatim>\<open>[9223372036854775807]\<close>, a cell that \<^verbatim>\<open>encoding/json\<close> decodes to the \<^verbatim>\<open>float64\<close>
  \<open>2^63\<close>: validation succeeds, and the value of the sample is not the integer part of
  the cell. It is what \<^verbatim>\<open>int64(metricValue)\<close> gives for a number that does not fit, here
  (as on amd64) the least \<^verbatim>\<open>int64\<close>, a negative value.
\<close>

theorem executeQuery_validate_value_overflow:
  "executeQuery_validate offline_env 200 ''{}''
     \<lparr>Tables = [sample_table [''long''] [[Float64 9223372036854775808]]]\<rparr> =
     Returns (Inr \<lparr>mvalue = - 9223372036854775808, mthreshold = - 1\<rparr>) \<and>
   sint (- 9223372036854775808 :: int64) = - 9223372036854775808 \<and>
   \<lfloor>9223372036854775808 :: real\<rfloor> = 9223372036854775808"
  by (simp add: executeQuery_validate_def executeQuery_value_def executeQuery_threshold_def
      sample_table_def numericType_def int64_of_float64_def trunc_float64_def offline_env_def)

text \<open>
  The threshold column of a single-row table whose value column passes, case by case:
  no second cell, a second cell and at most one declared column, a null second cell, a
  non-negative number in a numeric column.
\<close>

lemma executeQuery_validate_threshold:
  assumes "Tables q = [t]" and "Columns t \<noteq> []" and "Rows t = [row]"
    and "executeQuery_value env sc b (hd (Columns t)) row = Inr v"
  shows "(length row \<le> 1 \<longrightarrow>
            executeQuery_validate env sc b q = Returns (Inr \<lparr>mvalue = v, mthreshold = - 1\<rparr>)) \<and>
         (1 < length row \<and> length (Columns t) \<le> 1 \<longrightarrow>
            executeQuery_validate env sc b q = Panics (IndexOutOfRange 1 (length (Columns t)))) \<and>
         (1 < length row \<and> 1 < length (Columns t) \<and> row ! 1 = Nil \<longrightarrow>
            executeQuery_validate env sc b q = Returns (Inl (ErrThresholdEmpty sc b))) \<and>
         (1 < length row \<and> 1 < length (Columns t) \<and> row ! 1 = Float64 f \<and> 0 \<le> f \<and>
          numericType (cType (Columns t ! 1)) \<longrightarrow>
            executeQuery_validate env sc b q =
              Returns (Inr \<lparr>mvalue = v, mthreshold = int64_of_float64 env f\<rparr>))"
  using assms
  by (auto simp: executeQuery_validate_single executeQuery_threshold_def Let_def)

text \<open>
  Claim C5, at a table that declares one column and whose row is \<^verbatim>\<open>[1.0, null]\<close>: the
  second cell is present and null, and the code does not return the error about an empty
  threshold: reading \<^verbatim>\<open>Columns[1]\<close> panics first. By \<open>executeQuery_validate_threshold\<close>
  the rest of the claim holds: without a second cell the threshold is -1, and with two
  declared columns a null second cell is the error about an empty threshold and a
  non-negative number in a numeric column becomes the threshold.
\<close>

theorem executeQuery_validate_null_threshold_panics:
  "executeQuery_validate offline_env 200 ''{}''
     \<lparr>Tables = [sample_table [''real''] [[Float64 1, Nil]]]\<rparr> = Panics (IndexOutOfRange 1 1)"
  by (simp add: executeQuery_validate_def executeQuery_value_def executeQuery_threshold_def
      sample_table_def numericType_def int64_of_float64_def trunc_float64_def)

text \<open>
  Claim C10, at a table that passes the pre-validation (one table, one column, one row)
  and whose row is \<^verbatim>\<open>[1.0, 2.0]\<close>: the column list has length 1 and is read at index 1.
  By \<open>executeQuery_validate_threshold\<close> this happens whenever the row has a second
  cell, the table declares one column and the value column passes.
\<close>

theorem executeQuery_validate_column_index_panics:
  "executeQuery_validate offline_env 200 ''{}''
     \<lparr>Tables = [sample_table [''real''] [[Float64 1, Float64 2]]]\<rparr> =
   Panics (IndexOutOfRange 1 (length (Columns (sample_table [''real''] [[Float64 1, Float64 2]]))))"
  by (simp add: executeQuery_validate_def executeQuery_value_def executeQuery_threshold_def
      sample_table_def numericType_def int64_of_float64_def trunc_float64_def)

text \<open>
  Claim C6, amended. Zero tables, more than one table, zero rows and more than one row
  are each rejected, by three errors, not four. Zero tables and zero rows in the first
  table give the same error (there is no results after running your query), as zero
  columns do. More than one table gives the too-many-tables error with their number,
  unless the first table has no column or no row, which is tested first. More than one
  row in the only table gives the too-many-rows error with their number, unless the
  table has no column. The three errors are pairwise different.
\<close>

theorem executeQuery_validate_shape:
  "(Tables q = [] \<longrightarrow>
      executeQuery_validate env sc b q = Returns (Inl (ErrNoResults sc b))) \<and>
   (Tables q = t # ts \<and> Rows t = [] \<longrightarrow>
      executeQuery_validate env sc b q = Returns (Inl (ErrNoResults sc b))) \<and>
   (Tables q = t # ts \<and> ts \<noteq> [] \<longrightarrow>
      executeQuery_validate env sc b q =
        Returns (Inl (if Columns t = [] \<or> Rows t = [] then ErrNoResults sc b
                      else ErrTooManyTables (length (Tables q)) sc b))) \<and>
   (Tables q = [t] \<and> 1 < length (Rows t) \<longrightarrow>
      executeQuery_validate env sc b q =
        Returns (Inl (if Columns t = [] then ErrNoResults sc b
                      else ErrTooManyRows (length (Rows t)) sc b))) \<and>
   ErrNoResults sc b \<noteq> ErrTooManyTables n sc b \<and>
   ErrNoResults sc b \<noteq> ErrTooManyRows k sc b \<and>
   ErrTooManyTables n sc b \<noteq> ErrTooManyRows k sc b"
proof (intro conjI impI)
  assume "Tables q = []"
  then show "executeQuery_validate env sc b q = Returns (Inl (ErrNoResults sc b))"
    by (simp add: executeQuery_validate_def)
next
  assume "Tables q = t # ts \<and> Rows t = []"
  then show "executeQuery_validate env sc b q = Returns (Inl (ErrNoResults sc b))"
    by (simp add: executeQuery_validate_def)
next
  assume "Tables q = t # ts \<and> ts \<noteq> []"
  then show "executeQuery_validate env sc b q =
      Returns (Inl (if Columns t = [] \<or> Rows t = [] then ErrNoResults sc b
                    else ErrTooManyTables (length (Tables q)) sc b))"
    by (cases ts) (simp_all add: executeQuery_validate_def)
next
  assume "Tables q = [t] \<and> 1 < length (Rows t)"
  then show "executeQuery_validate env sc b q =
      Returns (Inl (if Columns t = [] then ErrNoResults sc b
                    else ErrTooManyRows (length (Rows t)) sc b))"
    by (auto simp: executeQuery_validate_def)
qed simp_all

theorem executeQuery_validate_shape_witness:
  "executeQuery_validate offline_env 200 ''{}'' \<lparr>Tables = []\<rparr> =
     Returns (Inl (ErrNoResults 200 ''{}'')) \<and>
   executeQuery_validate offline_env 200 ''{}'' \<lparr>Tables = [sample_table [''long''] []]\<rparr> =
     Returns (Inl (ErrNoResults 200 ''{}'')) \<and>
   executeQuery_validate offline_env 200 ''{}''
     \<lparr>Tables = [sample_table [''long''] [[Float64 1]], sample_table [''long''] [[Float64 2]]]\<rparr> =
     Returns (Inl (ErrTooManyTables 2 200 ''{}'')) \<and>
   executeQuery_validate offline_env 200 ''{}''
     \<lparr>Tables = [sample_table [''long''] [[Float64 1], [Float64 2]]]\<rparr> =
     Returns (Inl (ErrTooManyRows 2 200 ''{}''))"
proof -
  let ?one = "sample_table [''long''] [[Float64 1]]"
  let ?two = "sample_table [''long''] [[Float64 2]]"
  let ?none = "sample_table [''long''] []"
  let ?rows = "sample_table [''long''] [[Float64 1], [Float64 2]]"
  have a: "Tables \<lparr>Tables = []\<rparr> = []" by simp
  have b: "Tables \<lparr>Tables = [?none]\<rparr> = ?none # [] \<and> Rows ?none = []"
    by (simp add: sample_table_def)
  have c: "Tables \<lparr>Tables = [?one, ?two]\<rparr> = ?one # [?two] \<and> [?two] \<noteq> []" by simp
  have d: "Tables \<lparr>Tables = [?rows]\<rparr> = [?rows] \<and> 1 < length (Rows ?rows)"
    by (simp add: sample_table_def)
  from executeQuery_validate_shape [of "\<lparr>Tables = []\<rparr>" offline_env 200 "''{}''"] a
  have 1: "executeQuery_validate offline_env 200 ''{}'' \<lparr>Tables = []\<rparr> =
      Returns (Inl (ErrNoResults 200 ''{}''))"
    by blast
  from executeQuery_validate_shape [of "\<lparr>Tables = [?none]\<rparr>" offline_env 200 "''{}''" ?none "[]"] b
  have 2: "executeQuery_validate offline_env 200 ''{}'' \<lparr>Tables = [?none]\<rparr> =
      Returns (Inl (ErrNoResults 200 ''{}''))"
    by blast
  from executeQuery_validate_shape
    [of "\<lparr>Tables = [?one, ?two]\<rparr>" offline_env 200 "''{}''" ?one "[?two]"] c
  have "executeQuery_validate offline_env 200 ''{}'' \<lparr>Tables = [?one, ?two]\<rparr> =
      Returns (Inl (if Columns ?one = [] \<or> Rows ?one = [] then ErrNoResults 200 ''{}''
                    else ErrTooManyTables (length (Tables \<lparr>Tables = [?one, ?two]\<rparr>)) 200 ''{}''))"
    by blast
  then have 3: "executeQuery_validate offline_env 200 ''{}'' \<lparr>Tables = [?one, ?two]\<rparr> =
      Returns (Inl (ErrTooManyTables 2 200 ''{}''))"
    by (simp add: sample_table_def)
  from executeQuery_validate_shape
    [of "\<lparr>Tables = [?rows]\<rparr>" offline_env 200 "''{}''" ?rows "[]"] d
  have "executeQuery_validate offline_env 200 ''{}'' \<lparr>Tables = [?rows]\<rparr> =
      Returns (Inl (if Columns ?rows = [] then ErrNoResults 200 ''{}''
                    else ErrTooManyRows (length (Rows ?rows)) 200 ''{}''))"
    by blast
  then have 4: "executeQuery_validate offline_env 200 ''{}'' \<lparr>Tables = [?rows]\<rparr> =
      Returns (Inl (ErrTooManyRows 2 200 ''{}''))"
    by (simp add: sample_table_def)
  from 1 2 3 4 show ?thesis by blast
qed

text \<open>
  Claim C6 as stated fails: a response with no table and a response whose table has no
  row are rejected with the same error, which differs only in the body it quotes; and
  two tables of which the first has no row are reported as no results, not as too many
  tables.
\<close>

theorem executeQuery_validate_shape_counterexample:
  \<open>executeQuery_validate offline_env 200 ''{"tables":[]}'' \<lparr>Tables = []\<rparr> =
     Returns (Inl (ErrNoResults 200 ''{"tables":[]}'')) \<and>
   executeQuery_validate offline_env 200
     ''{"tables":[{"name":"PrimaryResult","columns":[{"name":"c","type":"long"}],"rows":[]}]}''
     \<lparr>Tables = [sample_table [''long''] []]\<rparr> =
     Returns (Inl (ErrNoResults 200
       ''{"tables":[{"name":"PrimaryResult","columns":[{"name":"c","type":"long"}],"rows":[]}]}'')) \<and>
   executeQuery_validate offline_env 200 ''{}''
     \<lparr>Tables = [sample_table [''long''] [], sample_table [''long''] [[Float64 2]]]\<rparr> =
     Returns (Inl (ErrNoResults 200 ''{}''))\<close>
  by (simp add: executeQuery_validate_def sample_table_def)
section \<open>Properties of the token lifecycle\<close>

lemmas sample_defs = sample_metadata_def sample_scaler_def sample_token_def sample_world_def
  sample_env_def offline_env_def sample_table_def newSessionCache_def

lemmas eval_defs = runHTTP_def executeAADApicall_def executeIMDSApicall_def
  getAuthorizationToken_def refreshAccessToken_def time_Sleep_def time_Second_def
  executeQuery_def executeLogAnalyticsREST_def executeQuery_response_def
  executeQuery_validate_def executeQuery_value_def executeQuery_threshold_def
  numericType_def int64_of_float64_def trunc_float64_def cacheToken_def setTokenInCache_def
  getTokenFromCache_def getHash_def getAccessToken_def getMetricData_def tokenData_zero_def
  Let_def

lemma cacheToken_eq:
  "cacheToken s t w = w\<lparr>tokenCache := (tokenCache w)(cacheKey s \<mapsto> t)\<rparr>"
  by (simp add: cacheToken_def setTokenInCache_def getHash_def cacheKey_def)

lemma runHTTP_world:
  "runHTTP env r c w = (x, w') \<Longrightarrow> w' = w\<lparr>requests := requests w @ [r]\<rparr>"
  by (auto simp: runHTTP_def Let_def split: prod.splits option.splits sum.splits)

lemma getAuthorizationToken_world:
  "getAuthorizationToken env s w = (x, w') \<Longrightarrow>
     w' = (if http_NewRequest env (tokenRequest s) = None
           then w\<lparr>requests := requests w @ [tokenRequest s]\<rparr> else w)"
  by (auto simp: getAuthorizationToken_def executeAADApicall_def executeIMDSApicall_def
      tokenRequest_def Let_def
      split: prod.splits option.splits go.splits if_splits dest: runHTTP_world)

lemma getAuthorizationToken_Inr:
  "getAuthorizationToken env s w = (Returns (Inr t), w') \<Longrightarrow>
     w' = w\<lparr>requests := requests w @ [tokenRequest s]\<rparr>"
  by (auto simp: getAuthorizationToken_def executeAADApicall_def executeIMDSApicall_def
      tokenRequest_def Let_def
      split: prod.splits option.splits go.splits if_splits sum.splits dest: runHTTP_world)

lemma refreshAccessToken_requests:
  "refreshAccessToken env s w = (x, w') \<Longrightarrow>
     requests w' = requests w @
       (if http_NewRequest env (tokenRequest s) = None then [tokenRequest s] else []) \<and>
     tokenCache w' = tokenCache w"
  by (auto simp: refreshAccessToken_def time_Sleep_def Let_def
      split: prod.splits go.splits sum.splits if_splits dest!: getAuthorizationToken_world)

lemma refreshAccessToken_Inr:
  "refreshAccessToken env s w = (Returns (Inr t), w') \<Longrightarrow>
     requests w' = requests w @ [tokenRequest s] \<and> tokenCache w' = tokenCache w"
  by (auto simp: refreshAccessToken_def time_Sleep_def Let_def
      split: prod.splits go.splits sum.splits if_splits dest!: getAuthorizationToken_Inr)

lemma sint_plus_30:
  assumes "sint (x :: int64) + 30 < 2 ^ 63"
  shows "sint (x + 30) = sint x + 30"
proof -
  have "sint (x + 30) = signed_take_bit 63 (sint x + sint (30 :: int64))"
    by (simp add: sint_word_ariths)
  also have "\<dots> = sint x + 30"
    using assms sint_ge [of x] by (simp add: signed_take_bit_int_eq_self)
  finally show ?thesis .
qed

lemma sint_plus_10:
  assumes "sint (x :: int64) + 10 < 2 ^ 63"
  shows "sint (x + 10) = sint x + 10"
proof -
  have "sint (x + 10) = signed_take_bit 63 (sint x + sint (10 :: int64))"
    by (simp add: sint_word_ariths)
  also have "\<dots> = sint x + 10"
    using assms sint_ge [of x] by (simp add: signed_take_bit_int_eq_self)
  finally show ?thesis .
qed

lemma cached_lookup:
  "(if podIdentity (metadata s) = []
    then fst (getTokenFromCache (clientID (metadata s)) (clientSecret (metadata s)) w)
    else fst (getTokenFromCache (podIdentity (metadata s)) (podIdentity (metadata s)) w)) =
   (case tokenCache w (cacheKey s) of
      None \<Rightarrow> tokenData_zero
    | Some t \<Rightarrow> if AccessToken t \<noteq> [] then t else tokenData_zero)"
  by (simp add: getTokenFromCache_def getHash_def cacheKey_def split: option.splits)

lemma getAccessToken_fresh:
  assumes "sint (clock w) + 30 < 2 ^ 63" and "\<not> stale s w"
  shows "\<exists>t. tokenCache w (cacheKey s) = Some t \<and> getAccessToken env s w = (Returns (Inr t), w)"
  using assms
  by (auto simp: getAccessToken_def cached_lookup Let_def stale_def word_sless_alt sint_plus_30
      split: option.splits)

lemma getAccessToken_stale:
  assumes "0 \<le> sint (clock w)" and "sint (clock w) + 30 < 2 ^ 63"
    and "stale s w"
  shows "getAccessToken env s w =
     (case refreshAccessToken env s w of
        (Returns (Inr newTokenInfo), w') \<Rightarrow>
          (Returns (Inr newTokenInfo), w'\<lparr>tokenCache := (tokenCache w')(cacheKey s \<mapsto> newTokenInfo)\<rparr>)
      | (x, w') \<Rightarrow> (x, w'))"
  using assms
  by (auto simp: getAccessToken_def cached_lookup Let_def stale_def word_sless_alt sint_plus_30
      cacheToken_eq tokenData_zero_def
      split: option.splits prod.splits go.splits sum.splits)
text \<open>
  Claim C3, amended. For a clock reading between 0 and \<open>2^63 - 31\<close>:
  a cached token with a non-empty access token and \<open>now + 30 \<le> expiresOn\<close> is returned
  and the world is left as it is (no provider call); when the cache is stale (no entry,
  an entry with an empty access token, or \<open>expiresOn < now + 30\<close>) the provider is sent
  exactly one request, provided \<^verbatim>\<open>http.NewRequest\<close> can build it; and when that acquire
  returns a token, exactly one request was sent, the token is in the cache
  under the scaler's key, and a later acquire at a time \<open>now'\<close> returns it without
  touching the world provided the token has a non-empty access token and
  \<open>now' + 30 \<le> expiresOn\<close>.
\<close>

theorem getAccessToken_reuse_or_refresh:
  assumes "0 \<le> sint (clock w)" and "sint (clock w) + 30 < 2 ^ 63"
  shows
    "(tokenCache w (cacheKey s) = Some t \<and> AccessToken t \<noteq> [] \<and>
        sint (clock w) + 30 \<le> sint (ExpiresOn t) \<longrightarrow>
          getAccessToken env s w = (Returns (Inr t), w)) \<and>
     (stale s w \<and> http_NewRequest env (tokenRequest s) = None \<longrightarrow>
          requests (snd (getAccessToken env s w)) = requests w @ [tokenRequest s]) \<and>
     (stale s w \<and> getAccessToken env s w = (Returns (Inr t'), w') \<longrightarrow>
          requests w' = requests w @ [tokenRequest s] \<and>
          tokenCache w' (cacheKey s) = Some t' \<and>
          (AccessToken t' \<noteq> [] \<and> 0 \<le> sint now' \<and> sint now' + 30 \<le> sint (ExpiresOn t') \<longrightarrow>
             getAccessToken env s (w'\<lparr>clock := now'\<rparr>) =
               (Returns (Inr t'), w'\<lparr>clock := now'\<rparr>)))"
proof (intro conjI impI)
  assume h: "tokenCache w (cacheKey s) = Some t \<and> AccessToken t \<noteq> [] \<and>
        sint (clock w) + 30 \<le> sint (ExpiresOn t)"
  then have "\<not> stale s w" by (simp add: stale_def)
  from getAccessToken_fresh [OF assms(2) this, of env] h
  show "getAccessToken env s w = (Returns (Inr t), w)" by auto
next
  assume h: "stale s w \<and> http_NewRequest env (tokenRequest s) = None"
  obtain x w1 where r: "refreshAccessToken env s w = (x, w1)" by (cases "refreshAccessToken env s w")
  from refreshAccessToken_requests [OF r] h
  have "requests w1 = requests w @ [tokenRequest s]" by simp
  then show "requests (snd (getAccessToken env s w)) = requests w @ [tokenRequest s]"
    using h r by (simp add: getAccessToken_stale [OF assms] split: go.splits sum.splits)
next
  assume h: "stale s w \<and> getAccessToken env s w = (Returns (Inr t'), w')"
  obtain x w1 where r: "refreshAccessToken env s w = (x, w1)" by (cases "refreshAccessToken env s w")
  from h r have x: "x = Returns (Inr t')"
    and w': "w' = w1\<lparr>tokenCache := (tokenCache w1)(cacheKey s \<mapsto> t')\<rparr>"
    by (auto simp: getAccessToken_stale [OF assms] split: go.splits sum.splits)
  from refreshAccessToken_Inr [OF r [unfolded x]]
  show "requests w' = requests w @ [tokenRequest s]" by (simp add: w')
  show "tokenCache w' (cacheKey s) = Some t'" by (simp add: w')
  assume k: "AccessToken t' \<noteq> [] \<and> 0 \<le> sint now' \<and> sint now' + 30 \<le> sint (ExpiresOn t')"
  have "sint (ExpiresOn t') < 2 ^ 63" using sint_lt [of "ExpiresOn t'"] by simp
  with k have rng: "0 \<le> sint (clock (w'\<lparr>clock := now'\<rparr>))"
    "sint (clock (w'\<lparr>clock := now'\<rparr>)) + 30 < 2 ^ 63" by auto
  have "\<not> stale s (w'\<lparr>clock := now'\<rparr>)" using k by (simp add: stale_def w')
  from getAccessToken_fresh [OF rng(2) this, of env]
  show "getAccessToken env s (w'\<lparr>clock := now'\<rparr>) = (Returns (Inr t'), w'\<lparr>clock := now'\<rparr>)"
    by (auto simp: w')
qed

theorem getAccessToken_reuse_or_refresh_witness:
  "getAccessToken offline_env sample_scaler
     ((sample_world 1000)\<lparr>tokenCache := [cacheKey sample_scaler \<mapsto> sample_token 0 1031]\<rparr>) =
     (Returns (Inr (sample_token 0 1031)),
      (sample_world 1000)\<lparr>tokenCache := [cacheKey sample_scaler \<mapsto> sample_token 0 1031]\<rparr>) \<and>
   requests (snd (getAccessToken (sample_env (sample_token 0 4700) 200 [] \<lparr>Tables = []\<rparr>)
     sample_scaler
     ((sample_world 1000)\<lparr>tokenCache := [cacheKey sample_scaler \<mapsto> sample_token 0 1029]\<rparr>))) =
     [AADRequest ''tenant'' ''client'' ''secret''] \<and>
   getAccessToken (sample_env (sample_token 0 4700) 200 [] \<lparr>Tables = []\<rparr>) sample_scaler
     ((snd (getAccessToken (sample_env (sample_token 0 4700) 200 [] \<lparr>Tables = []\<rparr>)
         sample_scaler (sample_world 1000)))\<lparr>clock := 2000\<rparr>) =
     (Returns (Inr (sample_token 0 4700)),
      (snd (getAccessToken (sample_env (sample_token 0 4700) 200 [] \<lparr>Tables = []\<rparr>)
         sample_scaler (sample_world 1000)))\<lparr>clock := 2000\<rparr>)"
proof -
  let ?env = "sample_env (sample_token 0 4700) 200 [] \<lparr>Tables = []\<rparr>"
  let ?w31 = "(sample_world 1000)\<lparr>tokenCache := [cacheKey sample_scaler \<mapsto> sample_token 0 1031]\<rparr>"
  let ?w29 = "(sample_world 1000)\<lparr>tokenCache := [cacheKey sample_scaler \<mapsto> sample_token 0 1029]\<rparr>"
  let ?w0 = "sample_world 1000"
  let ?w1 = "snd (getAccessToken ?env sample_scaler ?w0)"
  have r31: "0 \<le> sint (clock ?w31)" "sint (clock ?w31) + 30 < 2 ^ 63"
    by (simp_all add: sample_world_def)
  have r29: "0 \<le> sint (clock ?w29)" "sint (clock ?w29) + 30 < 2 ^ 63"
    by (simp_all add: sample_world_def)
  have r0: "0 \<le> sint (clock ?w0)" "sint (clock ?w0) + 30 < 2 ^ 63"
    by (simp_all add: sample_world_def)
  have h31: "tokenCache ?w31 (cacheKey sample_scaler) = Some (sample_token 0 1031) \<and>
      AccessToken (sample_token 0 1031) \<noteq> [] \<and>
      sint (clock ?w31) + 30 \<le> sint (ExpiresOn (sample_token 0 1031))"
    by (simp add: sample_world_def sample_token_def)
  have h29: "stale sample_scaler ?w29 \<and> http_NewRequest ?env (tokenRequest sample_scaler) = None"
    by (simp add: stale_def sample_world_def sample_token_def sample_env_def)
  have st0: "stale sample_scaler ?w0" by (simp add: stale_def sample_world_def)
  have g0: "getAccessToken ?env sample_scaler ?w0 = (Returns (Inr (sample_token 0 4700)), ?w1)"
    by (simp add: prod_eq_iff sample_defs eval_defs word_sless_alt)
  have k: "AccessToken (sample_token 0 4700) \<noteq> [] \<and> 0 \<le> sint (2000 :: int64) \<and>
      sint (2000 :: int64) + 30 \<le> sint (ExpiresOn (sample_token 0 4700))"
    by (simp add: sample_token_def)
  from getAccessToken_reuse_or_refresh [OF r31, of sample_scaler "sample_token 0 1031" offline_env] h31
  have a: "getAccessToken offline_env sample_scaler ?w31 = (Returns (Inr (sample_token 0 1031)), ?w31)"
    by blast
  from getAccessToken_reuse_or_refresh [OF r29, of sample_scaler _ ?env] h29
  have b: "requests (snd (getAccessToken ?env sample_scaler ?w29)) =
      requests ?w29 @ [tokenRequest sample_scaler]"
    by blast
  from getAccessToken_reuse_or_refresh [OF r0, of sample_scaler _ ?env "sample_token 0 4700" ?w1 2000]
    st0 g0 k
  have c: "getAccessToken ?env sample_scaler (?w1\<lparr>clock := 2000\<rparr>) =
      (Returns (Inr (sample_token 0 4700)), ?w1\<lparr>clock := 2000\<rparr>)"
    by blast
  from b have b': "requests (snd (getAccessToken ?env sample_scaler ?w29)) =
      [AADRequest ''tenant'' ''client'' ''secret'']"
    by (simp add: sample_world_def tokenRequest_def sample_scaler_def sample_metadata_def)
  from a b' c show ?thesis by blast
qed

text \<open>
  Claim C3 as stated fails twice. A cached entry with \<open>expiresOn = now + 31\<close> and an
  empty access token is not reused: the provider is called. And a provider whose token
  expires at \<open>now + 10\<close> is called again by the next acquire, although the first acquire
  stored its token.
\<close>

theorem getAccessToken_reuse_counterexample:
  "tokenCache ((sample_world 1000)\<lparr>tokenCache :=
       [cacheKey sample_scaler \<mapsto> (sample_token 0 1031)\<lparr>AccessToken := []\<rparr>]\<rparr>)
     (cacheKey sample_scaler) = Some ((sample_token 0 1031)\<lparr>AccessToken := []\<rparr>) \<and>
   sint (1000 :: int64) + 30 \<le> sint (ExpiresOn ((sample_token 0 1031)\<lparr>AccessToken := []\<rparr>)) \<and>
   requests (snd (getAccessToken (sample_env (sample_token 0 4700) 200 [] \<lparr>Tables = []\<rparr>)
     sample_scaler
     ((sample_world 1000)\<lparr>tokenCache :=
        [cacheKey sample_scaler \<mapsto> (sample_token 0 1031)\<lparr>AccessToken := []\<rparr>]\<rparr>))) =
     [AADRequest ''tenant'' ''client'' ''secret''] \<and>
   requests (snd (getAccessToken (sample_env (sample_token 0 1010) 200 [] \<lparr>Tables = []\<rparr>)
     sample_scaler
     (snd (getAccessToken (sample_env (sample_token 0 1010) 200 [] \<lparr>Tables = []\<rparr>)
        sample_scaler (sample_world 1000))))) =
     [AADRequest ''tenant'' ''client'' ''secret'', AADRequest ''tenant'' ''client'' ''secret'']"
  by (simp add: sample_defs eval_defs cacheKey_def word_sless_alt)

lemma refreshAccessToken_waits:
  assumes "getAuthorizationToken env s w = (Returns (Inr t), w')"
    and "sint (clock w') < sint (NotBefore t)"
    and "sint (NotBefore t) + 10 < 2 ^ 63"
  shows "refreshAccessToken env s w =
     (Returns (Inr t), time_Sleep ((NotBefore t - clock w' + 1) * time_Second) w')"
  using assms by (simp add: refreshAccessToken_def word_sless_alt sint_plus_10 Let_def)

text \<open>
  Claim C1, at a token whose \<^verbatim>\<open>not_before\<close> is 100 seconds ahead of the clock (now = 1000,
  notBefore = 1100): the wait exceeds 10 seconds, and \<^verbatim>\<open>refreshAccessToken\<close> does not
  fail. It sleeps 101 seconds (\<open>101 * 10^9\<close> nanoseconds) and returns the token. By
  \<open>refreshAccessToken_waits\<close> this is so for every wait: the inner test
  \<^verbatim>\<open>currentTimeSec < tokenInfo.NotBefore+10\<close> is implied by the outer one, and the branch
  with the error is reached only when \<^verbatim>\<open>NotBefore+10\<close> overflows.
\<close>

theorem refreshAccessToken_large_skew:
  "refreshAccessToken (sample_env (sample_token 1100 4700) 200 [] \<lparr>Tables = []\<rparr>)
     sample_scaler (sample_world 1000) =
   (Returns (Inr (sample_token 1100 4700)),
    \<lparr>clock = 1101, tokenCache = Map.empty,
     requests = [AADRequest ''tenant'' ''client'' ''secret''],
     slept = [101000000000]\<rparr>)"
  by (simp add: sample_defs eval_defs word_sless_alt)
section \<open>Properties of the query execution\<close>












text \<open>
  A first answer that is neither a 403 nor a body with the marker is handled at once: no
  refresh and no second request.
\<close>

lemma executeQuery_plain:
  assumes "executeLogAnalyticsREST env s q tok w = (Returns (body, sc, err), wa)"
    and "sc \<noteq> 403" and "body = [] \<or> \<not> strings_Contains body ''TokenExpired''"
  shows "executeQuery env s q tok w = (executeQuery_response env body sc err, wa)"
  using assms by (auto simp: executeQuery_def)






lemma executeQuery_nil_response:
  assumes "json_Marshal env q = None"
    and "http_NewRequest env
           (LogAnalyticsRequest (workspaceID (metadata s)) q (AccessToken tok)) = None"
    and "httpClient_Do env (requests w)
           (LogAnalyticsRequest (workspaceID (metadata s)) q (AccessToken tok)) = (None, Some e)"
  shows "fst (executeQuery env s q tok w) = Panics NilPointerDereference"
  using assms by (simp add: executeQuery_def executeLogAnalyticsREST_def runHTTP_def)

text \<open>
  Claim C8, at a transport that fails to connect (\<^verbatim>\<open>httpClient.Do\<close> returns a nil
  response and an error): \<^verbatim>\<open>runHTTP\<close> reads \<^verbatim>\<open>resp.StatusCode\<close> of the nil response to
  build its return value, and the query execution panics instead of returning an error.
  By \<open>executeQuery_nil_response\<close> this is so for every scaler and every such transport.
\<close>

theorem executeQuery_transport_error_panics:
  "executeQuery offline_env sample_scaler ''Heartbeat | count'' (sample_token 0 4700)
     (sample_world 1000) =
   (Panics NilPointerDereference,
    \<lparr>clock = 1000, tokenCache = Map.empty,
     requests = [LogAnalyticsRequest ''workspace'' ''Heartbeat | count'' ''token''],
     slept = []\<rparr>)"
  by (simp add: sample_defs eval_defs)
section \<open>Properties of the scaler's operations\<close>

lemma refreshAccessToken_cache:
  "refreshAccessToken env (s\<lparr>cache := c\<rparr>) w = refreshAccessToken env s w"
  by (simp add: refreshAccessToken_def getAuthorizationToken_def executeAADApicall_def
      executeIMDSApicall_def cong: if_cong)

lemma getAccessToken_cache:
  "getAccessToken env (s\<lparr>cache := c\<rparr>) w = getAccessToken env s w"
  by (simp add: getAccessToken_def refreshAccessToken_cache cacheToken_def
      cong: if_cong prod.case_cong go.case_cong sum.case_cong)

lemma executeQuery_cache:
  "executeQuery env (s\<lparr>cache := c\<rparr>) q t w = executeQuery env s q t w"
  by (simp add: executeQuery_def refreshAccessToken_cache cacheToken_def
      executeLogAnalyticsREST_def
      cong: if_cong prod.case_cong go.case_cong sum.case_cong option.case_cong)

lemma getMetricData_cache:
  "getMetricData env (s\<lparr>cache := c\<rparr>) w = getMetricData env s w"
  by (simp add: getMetricData_def getAccessToken_cache executeQuery_cache
      cong: prod.case_cong go.case_cong sum.case_cong)

lemma GetMetrics_cache:
  "GetMetrics env (s\<lparr>cache := c\<rparr>) metricName w = GetMetrics env s metricName w"
  by (simp add: GetMetrics_def getMetricData_cache cong: prod.case_cong go.case_cong sum.case_cong)

lemma GetMetrics_world:
  "snd (GetMetrics env s metricName w) = snd (getMetricData env s w)"
  by (simp add: GetMetrics_def split: prod.splits go.splits sum.splits)

text \<open>
  On a session cache whose \<^verbatim>\<open>metricValue\<close> is -1, \<^verbatim>\<open>IsActive\<close> runs the fetch
  \<^verbatim>\<open>getMetricData\<close> once. A sample is stored as it is, with its threshold when that is
  positive and the configured one otherwise; an error leaves the cache as it was. On a
  cache with a non-negative value \<^verbatim>\<open>IsActive\<close> answers from the cache and touches
  nothing. \<^verbatim>\<open>GetMetrics\<close> does not read the session cache (\<open>GetMetrics_cache\<close>) and changes
  the world as the fetch does (\<open>GetMetrics_world\<close>).
\<close>

lemma IsActive_fresh:
  assumes fresh: "metricValue (cache s) = - 1"
  shows "snd (snd (IsActive env s w)) = snd (getMetricData env s w)"
    and "getMetricData env s w = (Returns (Inr m), w1) \<Longrightarrow>
           IsActive env s w =
             (Returns (Inr (0 <s mvalue m)),
              s\<lparr>cache := \<lparr>metricValue = mvalue m,
                           metricThreshold =
                             (if 0 <s mthreshold m then mthreshold m
                              else threshold (metadata s))\<rparr>\<rparr>,
              w1)"
    and "getMetricData env s w = (Returns (Inl e), w1) \<Longrightarrow>
           IsActive env s w = (Returns (Inl (ErrIsActive (name s) (namespace s) e)), s, w1)"
proof -
  have lt: "metricValue (cache s) <s 0" using fresh by (simp add: word_sless_alt)
  show "snd (snd (IsActive env s w)) = snd (getMetricData env s w)"
    using lt
    by (simp add: IsActive_def updateCache_def split: prod.splits go.splits sum.splits)
  show "IsActive env s w =
      (Returns (Inr (0 <s mvalue m)),
       s\<lparr>cache := \<lparr>metricValue = mvalue m,
                    metricThreshold =
                      (if 0 <s mthreshold m then mthreshold m
                       else threshold (metadata s))\<rparr>\<rparr>,
       w1)"
    if "getMetricData env s w = (Returns (Inr m), w1)"
    using lt that by (simp add: IsActive_def updateCache_def)
  show "IsActive env s w = (Returns (Inl (ErrIsActive (name s) (namespace s) e)), s, w1)"
    if "getMetricData env s w = (Returns (Inl e), w1)"
    using lt that by (simp add: IsActive_def updateCache_def)
qed

lemma IsActive_cached:
  assumes "0 \<le> sint (metricValue (cache s))"
  shows "IsActive env s w = (Returns (Inr (0 <s metricValue (cache s))), s, w)"
  using assms by (simp add: IsActive_def updateCache_def word_sless_alt)

lemma IsActive_stale:
  assumes "sint (metricValue (cache s)) < 0"
  shows "snd (snd (IsActive env s w)) = snd (getMetricData env s w)"
  using assms
  by (simp add: IsActive_def updateCache_def word_sless_alt
      split: prod.splits go.splits sum.splits)

lemma IsActive_examples:
  "IsActive (sample_env (sample_token 0 4700) 200 count_body count_tables) sample_scaler
     (sample_world 1000) =
     (Returns (Inr True),
      sample_scaler\<lparr>cache := \<lparr>metricValue = 5, metricThreshold = 10\<rparr>\<rparr>,
      \<lparr>clock = 1000, tokenCache = [cacheKey sample_scaler \<mapsto> sample_token 0 4700],
       requests = [AADRequest ''tenant'' ''client'' ''secret'',
                   LogAnalyticsRequest ''workspace'' ''Heartbeat | count'' ''token''],
       slept = []\<rparr>) \<and>
   IsActive (sample_env (sample_token 0 4700) 200 count_body count_tables)
     (sample_scaler\<lparr>cache := \<lparr>metricValue = 5, metricThreshold = 10\<rparr>\<rparr>)
     \<lparr>clock = 1000, tokenCache = [cacheKey sample_scaler \<mapsto> sample_token 0 4700],
      requests = [AADRequest ''tenant'' ''client'' ''secret'',
                  LogAnalyticsRequest ''workspace'' ''Heartbeat | count'' ''token''],
      slept = []\<rparr> =
     (Returns (Inr True),
      sample_scaler\<lparr>cache := \<lparr>metricValue = 5, metricThreshold = 10\<rparr>\<rparr>,
      \<lparr>clock = 1000, tokenCache = [cacheKey sample_scaler \<mapsto> sample_token 0 4700],
       requests = [AADRequest ''tenant'' ''client'' ''secret'',
                   LogAnalyticsRequest ''workspace'' ''Heartbeat | count'' ''token''],
       slept = []\<rparr>)"
proof -
  have nonempty: "count_body \<noteq> []" by (simp add: count_body_def)
  have nomarker: "\<not> strings_Contains count_body ''TokenExpired''" by (simp add: count_body_def)
  show ?thesis
    by (simp add: IsActive_def updateCache_def nonempty nomarker count_tables_def sample_defs
        eval_defs cacheKey_def word_sless_alt)
qed

lemma IsActive_threshold_example:
  "IsActive
     (sample_env (sample_token 0 4700) 200 ''[[0,7]]''
        \<lparr>Tables = [sample_table [''long'', ''long''] [[Float64 0, Float64 7]]]\<rparr>)
     sample_scaler (sample_world 1000) =
     (Returns (Inr False),
      sample_scaler\<lparr>cache := \<lparr>metricValue = 0, metricThreshold = 7\<rparr>\<rparr>,
      \<lparr>clock = 1000, tokenCache = [cacheKey sample_scaler \<mapsto> sample_token 0 4700],
       requests = [AADRequest ''tenant'' ''client'' ''secret'',
                   LogAnalyticsRequest ''workspace'' ''Heartbeat | count'' ''token''],
       slept = []\<rparr>) \<and>
   IsActive
     (sample_env (sample_token 0 4700) 200 ''[[0,7]]''
        \<lparr>Tables = [sample_table [''long'', ''long''] [[Float64 0, Float64 7]]]\<rparr>)
     (sample_scaler\<lparr>cache := \<lparr>metricValue = 0, metricThreshold = 7\<rparr>\<rparr>)
     \<lparr>clock = 1000, tokenCache = [cacheKey sample_scaler \<mapsto> sample_token 0 4700],
      requests = [AADRequest ''tenant'' ''client'' ''secret'',
                  LogAnalyticsRequest ''workspace'' ''Heartbeat | count'' ''token''],
      slept = []\<rparr> =
     (Returns (Inr False),
      sample_scaler\<lparr>cache := \<lparr>metricValue = 0, metricThreshold = 7\<rparr>\<rparr>,
      \<lparr>clock = 1000, tokenCache = [cacheKey sample_scaler \<mapsto> sample_token 0 4700],
       requests = [AADRequest ''tenant'' ''client'' ''secret'',
                   LogAnalyticsRequest ''workspace'' ''Heartbeat | count'' ''token''],
       slept = []\<rparr>)"
  by (simp add: IsActive_def updateCache_def sample_defs eval_defs cacheKey_def word_sless_alt)

text \<open>
  Claim C9, at a query endpoint that answers with the count 9223372036854775807 in a
  column of type long. The first \<^verbatim>\<open>IsActive\<close> on the fresh session cache succeeds, with
  one provider call and one query, and stores the value \<^verbatim>\<open>int64\<close> makes of \<open>2^63\<close>, the
  least \<^verbatim>\<open>int64\<close> (as on amd64). The second \<^verbatim>\<open>IsActive\<close> finds \<^verbatim>\<open>metricValue < 0\<close>, takes
  the cache for unfetched and sends a second query: two consecutive calls, two queries.
\<close>

theorem IsActive_twice_overflow:
  "IsActive (sample_env (sample_token 0 4700) 200 overflow_body overflow_tables) sample_scaler
     (sample_world 1000) =
     (Returns (Inr False),
      sample_scaler\<lparr>cache := \<lparr>metricValue = - 9223372036854775808, metricThreshold = 10\<rparr>\<rparr>,
      \<lparr>clock = 1000, tokenCache = [cacheKey sample_scaler \<mapsto> sample_token 0 4700],
       requests = [AADRequest ''tenant'' ''client'' ''secret'',
                   LogAnalyticsRequest ''workspace'' ''Heartbeat | count'' ''token''],
       slept = []\<rparr>) \<and>
   requests (snd (snd (IsActive
     (sample_env (sample_token 0 4700) 200 overflow_body overflow_tables)
     (sample_scaler\<lparr>cache := \<lparr>metricValue = - 9223372036854775808, metricThreshold = 10\<rparr>\<rparr>)
     \<lparr>clock = 1000, tokenCache = [cacheKey sample_scaler \<mapsto> sample_token 0 4700],
      requests = [AADRequest ''tenant'' ''client'' ''secret'',
                  LogAnalyticsRequest ''workspace'' ''Heartbeat | count'' ''token''],
      slept = []\<rparr>))) =
     [AADRequest ''tenant'' ''client'' ''secret'',
      LogAnalyticsRequest ''workspace'' ''Heartbeat | count'' ''token'',
      LogAnalyticsRequest ''workspace'' ''Heartbeat | count'' ''token'']"
proof -
  have nonempty: "overflow_body \<noteq> []" by (simp add: overflow_body_def)
  have nomarker: "\<not> strings_Contains overflow_body ''TokenExpired''"
    by (simp add: overflow_body_def)
  show ?thesis
    by (simp add: IsActive_def updateCache_def nonempty nomarker overflow_tables_def
        sample_defs eval_defs cacheKey_def word_sless_alt)
qed

section \<open>Properties of the credential fingerprint\<close>

lemma joined_injective:
  assumes "CHR ''|'' \<notin> set a" and "CHR ''|'' \<notin> set c" and "a @ ''|'' @ b = c @ ''|'' @ d"
  shows "a = c \<and> b = d"
  using assms
proof (induction a arbitrary: c)
  case Nil
  then show ?case by (cases c) auto
next
  case (Cons x xs)
  then show ?case by (cases c) auto
qed

subsection \<open>The base64 encoding is injective\<close>

text \<open>
  Each of the four characters of a group stands for six bits (a value below 64), the
  alphabet has 64 different characters, none of them the padding character, and the
  three bytes of a group are recovered from its four sextets.
\<close>

lemma and_3_take_bit: "(a :: byte) AND 3 = take_bit 2 a"
  by (simp add: take_bit_eq_mask mask_eq_exp_minus_1)
lemma and_15_take_bit: "(a :: byte) AND 15 = take_bit 4 a"
  by (simp add: take_bit_eq_mask mask_eq_exp_minus_1)
lemma and_63_take_bit: "(a :: byte) AND 63 = take_bit 6 a"
  by (simp add: take_bit_eq_mask mask_eq_exp_minus_1)

lemma byte_eqI:
  assumes "\<And>n. n \<in> {0, 1, 2, 3, 4, 5, 6, 7} \<Longrightarrow> bit a n = bit b n"
  shows "a = (b :: byte)"
proof (rule bit_word_eqI)
  fix n assume "n < LENGTH(8)"
  then have "n \<in> {0, 1, 2, 3, 4, 5, 6, 7}" by auto
  then show "bit a n = bit b n" by (rule assms)
qed

lemma first_byte:
  "(a :: byte) =
     push_bit 2 (drop_bit 2 a) OR drop_bit 4 (push_bit 4 (a AND 3) OR drop_bit 4 b)"
  unfolding and_3_take_bit
  by (rule byte_eqI) (auto simp: bit_simps dest: bit_imp_le_length; simp add: numeral_2_eq_2 numeral_3_eq_3)

lemma second_byte:
  "(b :: byte) =
     push_bit 4 (push_bit 4 ((a :: byte) AND 3) OR drop_bit 4 b) OR
     drop_bit 2 (push_bit 2 (b AND 15) OR drop_bit 6 (c :: byte))"
  unfolding and_3_take_bit and_15_take_bit by (rule byte_eqI) (auto simp: bit_simps dest: bit_imp_le_length)

lemma third_byte:
  "(c :: byte) = push_bit 6 (push_bit 2 ((b :: byte) AND 15) OR drop_bit 6 c) OR (c AND 63)"
  unfolding and_15_take_bit and_63_take_bit by (rule byte_eqI) (auto simp: bit_simps dest: bit_imp_le_length)

lemma sextet_less_64: "take_bit 6 (x :: byte) = x \<Longrightarrow> unat x < 64"
proof -
  assume a: "take_bit 6 x = x"
  have "unat (take_bit 6 x) = take_bit 6 (unat x)" by (simp add: unsigned_take_bit_eq)
  also have "\<dots> < 2 ^ 6" by (rule take_bit_nat_less_exp)
  finally show ?thesis using a by simp
qed

lemma sextet_1: "take_bit 6 (drop_bit 2 (a :: byte)) = drop_bit 2 a"
  by (rule byte_eqI) (auto simp: bit_simps dest: bit_imp_le_length)
lemma sextet_2:
  "take_bit 6 (push_bit 4 ((a :: byte) AND 3) OR drop_bit 4 (b :: byte)) =
     push_bit 4 (a AND 3) OR drop_bit 4 b"
  unfolding and_3_take_bit by (rule byte_eqI) (auto simp: bit_simps dest: bit_imp_le_length)
lemma sextet_3:
  "take_bit 6 (push_bit 2 ((b :: byte) AND 15) OR drop_bit 6 (c :: byte)) =
     push_bit 2 (b AND 15) OR drop_bit 6 c"
  unfolding and_15_take_bit by (rule byte_eqI) (auto simp: bit_simps dest: bit_imp_le_length)
lemma sextet_4: "take_bit 6 ((c :: byte) AND 63) = c AND 63"
  unfolding and_63_take_bit by (rule byte_eqI) (auto simp: bit_simps dest: bit_imp_le_length)
lemma sextet_2_short: "take_bit 6 (push_bit 4 ((a :: byte) AND 3)) = push_bit 4 (a AND 3)"
  unfolding and_3_take_bit by (rule byte_eqI) (auto simp: bit_simps dest: bit_imp_le_length)
lemma sextet_3_short: "take_bit 6 (push_bit 2 ((b :: byte) AND 15)) = push_bit 2 (b AND 15)"
  unfolding and_15_take_bit by (rule byte_eqI) (auto simp: bit_simps dest: bit_imp_le_length)


lemma distinct_encodeStd: "distinct encodeStd"
  by (simp add: encodeStd_def)

lemma length_encodeStd: "length encodeStd = 64"
  by (simp add: encodeStd_def)

lemma pad_notin_encodeStd: "CHR ''='' \<notin> set encodeStd"
  by (simp add: encodeStd_def)

lemma b64_inj:
  assumes "unat x < 64" and "unat y < 64" and "b64 x = b64 y"
  shows "x = y"
proof -
  have "unat x = unat y"
    using assms nth_eq_iff_index_eq [OF distinct_encodeStd, of "unat x" "unat y"]
    by (simp add: b64_def length_encodeStd)
  then show ?thesis by (rule unsigned_word_eqI)
qed

lemma b64_not_pad: "unat x < 64 \<Longrightarrow> b64 x \<noteq> CHR ''=''"
  by (metis b64_def length_encodeStd nth_mem pad_notin_encodeStd)

lemmas sextet_bounds =
  sextet_less_64 [OF sextet_1] sextet_less_64 [OF sextet_2] sextet_less_64 [OF sextet_3]
  sextet_less_64 [OF sextet_4] sextet_less_64 [OF sextet_2_short]
  sextet_less_64 [OF sextet_3_short]

lemma base64_triple_inj:
  assumes "b64 (drop_bit 2 a) = b64 (drop_bit 2 a')"
    and "b64 (push_bit 4 (a AND 3) OR drop_bit 4 b) = b64 (push_bit 4 (a' AND 3) OR drop_bit 4 b')"
    and "b64 (push_bit 2 (b AND 15) OR drop_bit 6 c) = b64 (push_bit 2 (b' AND 15) OR drop_bit 6 c')"
    and "b64 (c AND 63) = b64 (c' AND 63)"
  shows "a = a' \<and> b = b' \<and> c = (c' :: byte)"
proof -
  have e1: "drop_bit 2 a = drop_bit 2 a'"
    using assms(1) by (rule b64_inj [OF sextet_bounds(1) sextet_bounds(1)])
  have e2: "push_bit 4 (a AND 3) OR drop_bit 4 b = push_bit 4 (a' AND 3) OR drop_bit 4 b'"
    using assms(2) by (rule b64_inj [OF sextet_bounds(2) sextet_bounds(2)])
  have e3: "push_bit 2 (b AND 15) OR drop_bit 6 c = push_bit 2 (b' AND 15) OR drop_bit 6 c'"
    using assms(3) by (rule b64_inj [OF sextet_bounds(3) sextet_bounds(3)])
  have e4: "c AND 63 = c' AND 63"
    using assms(4) by (rule b64_inj [OF sextet_bounds(4) sextet_bounds(4)])
  have "a = push_bit 2 (drop_bit 2 a) OR drop_bit 4 (push_bit 4 (a AND 3) OR drop_bit 4 b)"
    by (rule first_byte)
  also have "\<dots> = push_bit 2 (drop_bit 2 a') OR drop_bit 4 (push_bit 4 (a' AND 3) OR drop_bit 4 b')"
    by (simp only: e1 e2)
  also have "\<dots> = a'" by (rule first_byte [symmetric])
  finally have a: "a = a'" .
  have "b = push_bit 4 (push_bit 4 (a AND 3) OR drop_bit 4 b) OR
            drop_bit 2 (push_bit 2 (b AND 15) OR drop_bit 6 c)"
    by (rule second_byte)
  also have "\<dots> = push_bit 4 (push_bit 4 (a' AND 3) OR drop_bit 4 b') OR
            drop_bit 2 (push_bit 2 (b' AND 15) OR drop_bit 6 c')"
    by (simp only: e2 e3)
  also have "\<dots> = b'" by (rule second_byte [symmetric])
  finally have b: "b = b'" .
  have "c = push_bit 6 (push_bit 2 (b AND 15) OR drop_bit 6 c) OR (c AND 63)"
    by (rule third_byte)
  also have "\<dots> = push_bit 6 (push_bit 2 (b' AND 15) OR drop_bit 6 c') OR (c' AND 63)"
    by (simp only: e3 e4)
  also have "\<dots> = c'" by (rule third_byte [symmetric])
  finally have c: "c = c'" .
  from a b c show ?thesis by simp
qed

lemma base64_EncodeToString_inj:
  "base64_EncodeToString xs = base64_EncodeToString ys \<Longrightarrow> xs = ys"
proof (induction xs arbitrary: ys rule: base64_EncodeToString.induct)
  case 1
  then show ?case by (cases ys rule: base64_EncodeToString.cases) auto
next
  case (2 a)
  show ?case
  proof (cases ys rule: base64_EncodeToString.cases)
    case 1
    with 2 show ?thesis by simp
  next
    case (2 a')
    with "2.prems" have "b64 (drop_bit 2 a) = b64 (drop_bit 2 a')"
      and "b64 (push_bit 4 (a AND 3) OR drop_bit 4 0) = b64 (push_bit 4 (a' AND 3) OR drop_bit 4 0)"
      by simp_all
    from base64_triple_inj [OF this refl refl] 2 show ?thesis by simp
  next
    case (3 a' b')
    with "2.prems" b64_not_pad [OF sextet_bounds(6), of b'] show ?thesis by auto
  next
    case (4 a' b' c' rest)
    with "2.prems" b64_not_pad [OF sextet_bounds(3), of b' c'] show ?thesis by auto
  qed
next
  case (3 a b)
  show ?case
  proof (cases ys rule: base64_EncodeToString.cases)
    case 1
    with 3 show ?thesis by simp
  next
    case (2 a')
    with "3.prems" b64_not_pad [OF sextet_bounds(6), of b] show ?thesis by auto
  next
    case (3 a' b')
    with "3.prems" have "b64 (drop_bit 2 a) = b64 (drop_bit 2 a')"
      and "b64 (push_bit 4 (a AND 3) OR drop_bit 4 b) = b64 (push_bit 4 (a' AND 3) OR drop_bit 4 b')"
      and "b64 (push_bit 2 (b AND 15) OR drop_bit 6 0) = b64 (push_bit 2 (b' AND 15) OR drop_bit 6 0)"
      by simp_all
    from base64_triple_inj [OF this refl] 3 show ?thesis by simp
  next
    case (4 a' b' c' rest)
    with "3.prems" b64_not_pad [OF sextet_bounds(4), of c'] show ?thesis by auto
  qed
next
  case (4 a b c rest)
  show ?case
  proof (cases ys rule: base64_EncodeToString.cases)
    case 1
    with 4 show ?thesis by simp
  next
    case (2 a')
    with "4.prems" b64_not_pad [OF sextet_bounds(3), of b c] show ?thesis by auto
  next
    case (3 a' b')
    with "4.prems" b64_not_pad [OF sextet_bounds(4), of c] show ?thesis by auto
  next
    case (4 a' b' c' rest')
    with "4.prems" have "b64 (drop_bit 2 a) = b64 (drop_bit 2 a')"
      and "b64 (push_bit 4 (a AND 3) OR drop_bit 4 b) = b64 (push_bit 4 (a' AND 3) OR drop_bit 4 b')"
      and "b64 (push_bit 2 (b AND 15) OR drop_bit 6 c) = b64 (push_bit 2 (b' AND 15) OR drop_bit 6 c')"
      and "b64 (c AND 63) = b64 (c' AND 63)"
      and r: "base64_EncodeToString rest = base64_EncodeToString rest'"
      by simp_all
    from base64_triple_inj [OF this(1-4)] "4.IH" [OF r] 4 show ?thesis by simp
  qed
qed

subsection \<open>The key\<close>

text \<open>
  Claim C7, amended. \<^verbatim>\<open>getHash\<close> never fails, and its key is a function of the joined
  string \<^verbatim>\<open>clientID|clientSecret\<close> alone: two pairs have the same key exactly when the
  SHA-1 digests of their joined strings are the same (the base64 encoding loses
  nothing). So identical pairs have the same key, and so do any two pairs with the same
  joined string. Two different pairs have different joined strings when neither client
  id contains a bar; their keys then differ unless SHA-1 collides on the two strings.
\<close>

theorem getHash_joined:
  "snd (getHash a b) = None \<and>
   (fst (getHash a b) = fst (getHash c d) \<longleftrightarrow>
      sha1_Sum (a @ ''|'' @ b) = sha1_Sum (c @ ''|'' @ d)) \<and>
   (a = c \<and> b = d \<longrightarrow> getHash a b = getHash c d) \<and>
   (a @ ''|'' @ b = c @ ''|'' @ d \<longrightarrow> getHash a b = getHash c d) \<and>
   (CHR ''|'' \<notin> set a \<and> CHR ''|'' \<notin> set c \<and> (a \<noteq> c \<or> b \<noteq> d) \<longrightarrow>
      a @ ''|'' @ b \<noteq> c @ ''|'' @ d)"
  using joined_injective [of a c b d]
    base64_EncodeToString_inj [of "sha1_Sum (a @ ''|'' @ b)" "sha1_Sum (c @ ''|'' @ d)"]
  by (auto simp: getHash_def)

theorem getHash_joined_witness:
  "getHash ''client'' ''secret'' = getHash ''client'' ''secret'' \<and>
   getHash ''a|b'' ''c'' = getHash ''a'' ''b|c'' \<and>
   ''client'' @ ''|'' @ ''secret'' \<noteq> ''client'' @ ''|'' @ ''other''"
proof -
  have same: "''client'' = ''client'' \<and> ''secret'' = ''secret''" by simp
  have joined: "''a|b'' @ ''|'' @ ''c'' = ''a'' @ ''|'' @ ''b|c''" by simp
  have nobar: "CHR ''|'' \<notin> set ''client'' \<and> CHR ''|'' \<notin> set ''client'' \<and>
      (''client'' \<noteq> ''client'' \<or> ''secret'' \<noteq> ''other'')"
    by simp
  from getHash_joined [of "''client''" "''secret''" "''client''" "''secret''"] same
  have 1: "getHash ''client'' ''secret'' = getHash ''client'' ''secret''" by blast
  from getHash_joined [of "''a|b''" "''c''" "''a''" "''b|c''"] joined
  have 2: "getHash ''a|b'' ''c'' = getHash ''a'' ''b|c''" by blast
  from getHash_joined [of "''client''" "''secret''" "''client''" "''other''"] nobar
  have 3: "''client'' @ ''|'' @ ''secret'' \<noteq> ''client'' @ ''|'' @ ''other''" by blast
  from 1 2 3 show ?thesis by blast
qed

text \<open>
  Claim C7 as stated fails: the pairs (\<^verbatim>\<open>a|b\<close>, \<^verbatim>\<open>c\<close>) and (\<^verbatim>\<open>a\<close>, \<^verbatim>\<open>b|c\<close>) are different
  and have the same key, since both are joined to \<^verbatim>\<open>a|b|c\<close>.
\<close>

theorem getHash_counterexample:
  "(''a|b'', ''c'') \<noteq> (''a'', ''b|c'') \<and> getHash ''a|b'' ''c'' = getHash ''a'' ''b|c''"
  by (simp add: getHash_def)

end
